theory Spec2Isabelle
  imports Main "HOL-Library.AList" "HOL-Library.Sublist" "HOL-Library.Word"
begin

section \<open>Values exchanged with clients\<close>

text \<open>
  The server of \<^verbatim>\<open>src/server.js\<close> exchanges JSON with its clients: request bodies are
  parsed by \<^verbatim>\<open>express.json()\<close>, socket frames by \<^verbatim>\<open>JSON.parse\<close>, and every outgoing
  socket frame is \<^verbatim>\<open>JSON.stringify\<close> of an object literal. A parsed value is a \<open>json\<close>;
  an object is the list of its own properties in source order. A number that is whole
  and lies between \<open>- 2 ^ 53\<close> and \<open>2 ^ 53 - 1\<close> is \<open>JNum\<close> of a signed 54-bit word, read
  with \<open>sint\<close>: JavaScript holds these exactly and prints them in plain decimal. Any other
  number (a fraction, a larger magnitude) is \<open>JFloat\<close> of the text JavaScript prints for
  it; such a number is never zero. The strings of the protocol (identifiers, paths, type
  tags) are taken as their UTF-8 bytes.
\<close>

datatype json =
    JNull
  | JBool bool
  | JNum "54 word"
  | JFloat string
  | JStr string
  | JArr "json list"
  | JObj "(string \<times> json) list"

type_synonym msg = "(string \<times> json) list"

text \<open>JavaScript truthiness, as tested by \<^verbatim>\<open>!x\<close> and \<^verbatim>\<open>a && b\<close>.\<close>

fun truthy :: "json \<Rightarrow> bool" where
  "truthy JNull = False"
| "truthy (JBool b) = b"
| "truthy (JNum n) = (n \<noteq> 0)"
| "truthy (JFloat s) = True"
| "truthy (JStr s) = (s \<noteq> [])"
| "truthy (JArr xs) = True"
| "truthy (JObj kvs) = True"

text \<open>
  Reading a property \<^verbatim>\<open>data.k\<close> of a parsed value: \<open>None\<close> is \<^verbatim>\<open>undefined\<close>. Reading a
  property of \<^verbatim>\<open>null\<close> throws a TypeError, which is the \<open>Inl\<close> branch. The handlers read
  only the properties type, processId, input, cols and rows, which no string, number,
  boolean or array has. The other exceptions of the model are a failed file-system call
  and an \<^verbatim>\<open>error\<close> event emitted with no listener.
\<close>

datatype errno =
  ENOENT | ENOTDIR | EISDIR | EEXIST | ENOTEMPTY | EBUSY | ENAMETOOLONG | ERR_INVALID_ARG_VALUE

datatype exn = TypeError | FsError errno | UnhandledError string

fun get_prop :: "json \<Rightarrow> string \<Rightarrow> exn + json option" where
  "get_prop JNull k = Inl TypeError"
| "get_prop (JObj kvs) k = Inr (map_of kvs k)"
| "get_prop v k = Inr None"

definition falsy :: "json option \<Rightarrow> bool" where
  "falsy v = (case v of None \<Rightarrow> True | Some j \<Rightarrow> \<not> truthy j)"

subsection \<open>Printing numbers and values\<close>

definition digit_char :: "nat \<Rightarrow> char" where
  "digit_char d =
     (if d = 0 then CHR ''0'' else if d = 1 then CHR ''1'' else if d = 2 then CHR ''2''
      else if d = 3 then CHR ''3'' else if d = 4 then CHR ''4'' else if d = 5 then CHR ''5''
      else if d = 6 then CHR ''6'' else if d = 7 then CHR ''7'' else if d = 8 then CHR ''8''
      else CHR ''9'')"

fun show_nat :: "nat \<Rightarrow> string" where
  "show_nat n = (if n < 10 then [digit_char n] else show_nat (n div 10) @ [digit_char (n mod 10)])"

declare show_nat.simps [simp del]

definition show_int :: "int \<Rightarrow> string" where
  "show_int i = (if i < 0 then CHR ''-'' # show_nat (nat (- i)) else show_nat (nat i))"

fun join_with :: "string \<Rightarrow> string list \<Rightarrow> string" where
  "join_with sep [] = []"
| "join_with sep [s] = s"
| "join_with sep (s # t # ss) = s @ sep @ join_with sep (t # ss)"

text \<open>
  \<^verbatim>\<open>v.toString()\<close> on a parsed value that is truthy, which is also the string a template
  literal puts in for it. An object that carries an own property named toString has no
  callable method there, and the conversion throws (\<open>None\<close>); an array joins the strings
  of its elements with a comma, \<^verbatim>\<open>null\<close> elements printing as empty.
\<close>

fun js_toString :: "json \<Rightarrow> string option" and js_toString_list :: "json list \<Rightarrow> string list option" where
  "js_toString JNull = None"
| "js_toString (JBool b) = Some (if b then ''true'' else ''false'')"
| "js_toString (JNum n) = Some (show_int (sint n))"
| "js_toString (JFloat s) = Some s"
| "js_toString (JStr s) = Some s"
| "js_toString (JArr xs) = map_option (join_with '','') (js_toString_list xs)"
| "js_toString (JObj kvs) = (if map_of kvs ''toString'' = None then Some ''[object Object]'' else None)"
| "js_toString_list [] = Some []"
| "js_toString_list (x # xs) =
     (case (if x = JNull then Some [] else js_toString x) of
        None \<Rightarrow> None
      | Some s \<Rightarrow> map_option ((#) s) (js_toString_list xs))"

section \<open>Paths\<close>

text \<open>
  \<^verbatim>\<open>path.join\<close> of Node on a POSIX host: the non-empty arguments are joined with a slash
  and the result is normalised. Normalisation works on the segments between slashes:
  empty segments and \<^verbatim>\<open>.\<close> are dropped, \<^verbatim>\<open>..\<close> removes the segment before it, and at the
  root of an absolute path \<^verbatim>\<open>..\<close> is dropped. A trailing slash is kept.
\<close>

fun split_slash :: "string \<Rightarrow> string list" where
  "split_slash [] = [[]]"
| "split_slash (c # cs) =
     (if c = CHR ''/'' then [] # split_slash cs
      else (c # hd (split_slash cs)) # tl (split_slash cs))"

fun normalizeString :: "string list \<Rightarrow> bool \<Rightarrow> string list \<Rightarrow> string list" where
  "normalizeString [] allowAboveRoot res = res"
| "normalizeString (s # ss) allowAboveRoot res =
     (if s = [] \<or> s = ''.'' then normalizeString ss allowAboveRoot res
      else if s = ''..'' then
        (if res \<noteq> [] \<and> last res \<noteq> ''..'' then normalizeString ss allowAboveRoot (butlast res)
         else if allowAboveRoot then normalizeString ss allowAboveRoot (res @ [''..''])
         else normalizeString ss allowAboveRoot res)
      else normalizeString ss allowAboveRoot (res @ [s]))"

definition normalize :: "string \<Rightarrow> string" where
  "normalize p =
     (if p = [] then ''.''
      else
        let isAbsolute = (hd p = CHR ''/'');
            trailingSeparator = (last p = CHR ''/'');
            segs = normalizeString (split_slash p) (\<not> isAbsolute) []
        in if segs = [] then (if isAbsolute then ''/'' else if trailingSeparator then ''./'' else ''.'')
           else (if isAbsolute then ''/'' else []) @ join_with ''/'' segs
                @ (if trailingSeparator then ''/'' else []))"

definition path_join :: "string \<Rightarrow> string \<Rightarrow> string" where
  "path_join a b =
     (if a = [] \<and> b = [] then ''.''
      else if a = [] then normalize b
      else if b = [] then normalize a
      else normalize (a @ ''/'' @ b))"

text \<open>The components of a path, and whether it ends in a slash below the root.\<close>

definition segments :: "string \<Rightarrow> string list" where
  "segments p = filter (\<lambda>s. s \<noteq> []) (split_slash p)"

definition trailing :: "string \<Rightarrow> bool" where
  "trailing p = (p \<noteq> [] \<and> last p = CHR ''/'' \<and> segments p \<noteq> [])"

text \<open>
  \<^verbatim>\<open>path.dirname\<close> on the absolute, normalised paths the server passes to it: the path
  without its last component.
\<close>

definition path_dirname :: "string \<Rightarrow> string" where
  "path_dirname p = CHR ''/'' # join_with ''/'' (butlast (segments p))"


section \<open>File contents\<close>

text \<open>
  The content of a file is a JavaScript string, a sequence of 16-bit code units, and on
  storage a sequence of bytes. \<^verbatim>\<open>fs.writeFileSync(path, content)\<close> writes the UTF-8
  encoding of the string: a high surrogate followed by a low one is one code point, any
  other surrogate is written as U+FFFD. \<^verbatim>\<open>fs.readFileSync(path, 'utf-8')\<close> decodes
  the bytes; a byte sequence that is not UTF-8 gives U+FFFD for each maximal ill-formed
  part, as the decoder of the platform does, and a byte order mark is kept.
\<close>

type_synonym utf16 = "16 word list"

type_synonym bytes = "8 word list"

definition is_high :: "16 word \<Rightarrow> bool" where
  "is_high u = (0xD800 \<le> unat u \<and> unat u \<le> 0xDBFF)"

definition is_low :: "16 word \<Rightarrow> bool" where
  "is_low u = (0xDC00 \<le> unat u \<and> unat u \<le> 0xDFFF)"

text \<open>A string is well formed when every surrogate in it is half of a pair.\<close>

fun well_formed :: "utf16 \<Rightarrow> bool" where
  "well_formed [] = True"
| "well_formed [u] = (\<not> is_high u \<and> \<not> is_low u)"
| "well_formed (u # v # us) =
     (if is_high u then is_low v \<and> well_formed us
      else \<not> is_low u \<and> well_formed (v # us))"

fun utf16_scalars :: "utf16 \<Rightarrow> nat list" where
  "utf16_scalars [] = []"
| "utf16_scalars [u] = [if is_high u \<or> is_low u then 0xFFFD else unat u]"
| "utf16_scalars (u # v # us) =
     (if is_high u \<and> is_low v
      then (0x10000 + (unat u - 0xD800) * 0x400 + (unat v - 0xDC00)) # utf16_scalars us
      else (if is_high u \<or> is_low u then 0xFFFD else unat u) # utf16_scalars (v # us))"

definition utf8_of_scalar :: "nat \<Rightarrow> bytes" where
  "utf8_of_scalar c =
     (if c < 0x80 then [of_nat c]
      else if c < 0x800 then [of_nat (0xC0 + c div 64), of_nat (0x80 + c mod 64)]
      else if c < 0x10000 then
        [of_nat (0xE0 + c div 4096), of_nat (0x80 + c div 64 mod 64), of_nat (0x80 + c mod 64)]
      else
        [of_nat (0xF0 + c div 262144), of_nat (0x80 + c div 4096 mod 64),
         of_nat (0x80 + c div 64 mod 64), of_nat (0x80 + c mod 64)])"

definition utf8_encode :: "utf16 \<Rightarrow> bytes" where
  "utf8_encode t = concat (map utf8_of_scalar (utf16_scalars t))"

text \<open>
  The decoder reads byte by byte: \<open>cp\<close> is the code point collected so far, \<open>needed\<close> the
  number of continuation bytes still expected, \<open>lower\<close> and \<open>upper\<close> the range allowed for
  the next one. A byte outside the range ends the sequence with U+FFFD and is read again
  as the start of the next.
\<close>

function utf8_dec :: "nat \<Rightarrow> nat \<Rightarrow> nat \<Rightarrow> nat \<Rightarrow> nat list \<Rightarrow> nat list" where
  "utf8_dec cp needed lower upper [] = (if needed = 0 then [] else [0xFFFD])"
| "utf8_dec cp needed lower upper (b # bs) =
     (if needed = 0 then
        (if b \<le> 0x7F then b # utf8_dec 0 0 0x80 0xBF bs
         else if 0xC2 \<le> b \<and> b \<le> 0xDF then utf8_dec (b mod 32) 1 0x80 0xBF bs
         else if 0xE0 \<le> b \<and> b \<le> 0xEF then
           utf8_dec (b mod 16) 2 (if b = 0xE0 then 0xA0 else 0x80) (if b = 0xED then 0x9F else 0xBF) bs
         else if 0xF0 \<le> b \<and> b \<le> 0xF4 then
           utf8_dec (b mod 8) 3 (if b = 0xF0 then 0x90 else 0x80) (if b = 0xF4 then 0x8F else 0xBF) bs
         else 0xFFFD # utf8_dec 0 0 0x80 0xBF bs)
      else if b < lower \<or> upper < b then 0xFFFD # utf8_dec 0 0 0x80 0xBF (b # bs)
      else if needed = 1 then (cp * 64 + b mod 64) # utf8_dec 0 0 0x80 0xBF bs
      else utf8_dec (cp * 64 + b mod 64) (needed - 1) 0x80 0xBF bs)"
  by pat_completeness auto
termination
  by (relation "measure (\<lambda>(cp, needed, lower, upper, bs). 2 * length bs + (if needed = 0 then 0 else 1))")
     auto

declare utf8_dec.simps [simp del]

definition utf16_of_scalar :: "nat \<Rightarrow> utf16" where
  "utf16_of_scalar c =
     (if c < 0x10000 then [of_nat c]
      else [of_nat (0xD800 + (c - 0x10000) div 0x400), of_nat (0xDC00 + (c - 0x10000) mod 0x400)])"

definition utf8_decode :: "bytes \<Rightarrow> utf16" where
  "utf8_decode bs = concat (map utf16_of_scalar (utf8_dec 0 0 0x80 0xBF (map unat bs)))"

text \<open>The code points an encoder can be given: every one but the surrogates.\<close>

definition valid_scalar :: "nat \<Rightarrow> bool" where
  "valid_scalar c = (c < 0xD800 \<or> (0xE000 \<le> c \<and> c < 0x110000))"

section \<open>The host file system\<close>

text \<open>
  The persistent storage the server reaches through \<^verbatim>\<open>fs\<close>: a table from the components
  of an absolute path to a directory or a file with its bytes. The root is a directory.
  Each call either fails with an error code, as the \<^verbatim>\<open>Sync\<close> functions throw, or returns
  the new table. The model has no permissions and no symbolic links. The limits are those
  of the Linux volume: a path with a NUL byte is refused before any system call, a path of
  4096 bytes or more and a component of more than 255 bytes are too long.
\<close>

datatype node = Dir | File bytes

type_synonym fs = "(string list \<times> node) list"

definition fs_lookup :: "fs \<Rightarrow> string list \<Rightarrow> node option" where
  "fs_lookup fs segs = (if segs = [] then Some Dir else map_of fs segs)"

definition path_errno :: "string \<Rightarrow> errno option" where
  "path_errno p =
     (if CHR 0x00 \<in> set p then Some ERR_INVALID_ARG_VALUE
      else if 4096 \<le> length p then Some ENAMETOOLONG
      else None)"

text \<open>
  Resolving a path from the directory \<open>pre\<close> through the components that follow: each
  directory on the way must exist, and a component that is too long is not looked up.
\<close>

fun walk :: "fs \<Rightarrow> string list \<Rightarrow> string list \<Rightarrow> errno + node" where
  "walk fs pre [] = (case fs_lookup fs pre of None \<Rightarrow> Inl ENOENT | Some n \<Rightarrow> Inr n)"
| "walk fs pre (s # ss) =
     (case fs_lookup fs pre of
        None \<Rightarrow> Inl ENOENT
      | Some (File c) \<Rightarrow> Inl ENOTDIR
      | Some Dir \<Rightarrow> if 255 < length s then Inl ENAMETOOLONG else walk fs (pre @ [s]) ss)"

definition statSync :: "fs \<Rightarrow> string \<Rightarrow> errno + node" where
  "statSync fs p =
     (case path_errno p of
        Some e \<Rightarrow> Inl e
      | None \<Rightarrow>
          (case walk fs [] (segments p) of
             Inl e \<Rightarrow> Inl e
           | Inr Dir \<Rightarrow> Inr Dir
           | Inr (File c) \<Rightarrow> (if trailing p then Inl ENOTDIR else Inr (File c))))"

text \<open>\<^verbatim>\<open>fs.existsSync\<close> answers false on every error.\<close>

definition existsSync :: "fs \<Rightarrow> string \<Rightarrow> bool" where
  "existsSync fs p = (case statSync fs p of Inl e \<Rightarrow> False | Inr n \<Rightarrow> True)"

text \<open>
  \<^verbatim>\<open>fs.mkdirSync(p, { recursive: true })\<close>: every missing directory on the way is created.
  When the call fails, the directories created before the failure stay, so the error comes
  with the table as it is then.
\<close>

fun mkdir_p :: "fs \<Rightarrow> string list \<Rightarrow> string list \<Rightarrow> errno \<times> fs + fs" where
  "mkdir_p fs pre [] = Inr fs"
| "mkdir_p fs pre (s # ss) =
     (if 255 < length s then Inl (ENAMETOOLONG, fs)
      else case map_of fs (pre @ [s]) of
             Some (File c) \<Rightarrow> Inl (if ss = [] then EEXIST else ENOTDIR, fs)
           | Some Dir \<Rightarrow> mkdir_p fs (pre @ [s]) ss
           | None \<Rightarrow> mkdir_p (AList.update (pre @ [s]) Dir fs) (pre @ [s]) ss)"

definition mkdirSync :: "fs \<Rightarrow> string \<Rightarrow> errno \<times> fs + fs" where
  "mkdirSync fs p =
     (case path_errno p of
        Some e \<Rightarrow> Inl (e, fs)
      | None \<Rightarrow> mkdir_p fs [] (segments p))"

definition writeFileSync :: "fs \<Rightarrow> string \<Rightarrow> utf16 \<Rightarrow> errno + fs" where
  "writeFileSync fs p content =
     (case path_errno p of
        Some e \<Rightarrow> Inl e
      | None \<Rightarrow>
          if segments p = [] then Inl EISDIR
          else case walk fs [] (butlast (segments p)) of
                 Inl e \<Rightarrow> Inl e
               | Inr (File c) \<Rightarrow> Inl ENOTDIR
               | Inr Dir \<Rightarrow>
                   if 255 < length (last (segments p)) then Inl ENAMETOOLONG
                   else (case map_of fs (segments p) of
                           Some Dir \<Rightarrow> Inl EISDIR
                         | Some (File c) \<Rightarrow>
                             if trailing p then Inl ENOTDIR
                             else Inr (AList.update (segments p) (File (utf8_encode content)) fs)
                         | None \<Rightarrow>
                             if trailing p then Inl EISDIR
                             else Inr (AList.update (segments p) (File (utf8_encode content)) fs)))"

definition readFileSync :: "fs \<Rightarrow> string \<Rightarrow> errno + utf16" where
  "readFileSync fs p =
     (case statSync fs p of
        Inl e \<Rightarrow> Inl e
      | Inr Dir \<Rightarrow> Inl EISDIR
      | Inr (File c) \<Rightarrow> Inr (utf8_decode c))"

definition unlinkSync :: "fs \<Rightarrow> string \<Rightarrow> errno + fs" where
  "unlinkSync fs p =
     (case statSync fs p of
        Inl e \<Rightarrow> Inl e
      | Inr Dir \<Rightarrow> Inl EISDIR
      | Inr (File c) \<Rightarrow> Inr (AList.delete (segments p) fs))"

text \<open>
  \<^verbatim>\<open>fs.rmdirSync(p, { recursive })\<close>: a directory with entries is removed only when
  \<open>recursive\<close> is set, and then with everything below it. The root is never removed.
\<close>

definition rmdirSync :: "fs \<Rightarrow> string \<Rightarrow> bool \<Rightarrow> errno + fs" where
  "rmdirSync fs p recursive =
     (case statSync fs p of
        Inl e \<Rightarrow> Inl e
      | Inr (File c) \<Rightarrow> Inl ENOTDIR
      | Inr Dir \<Rightarrow>
          if segments p = [] then Inl EBUSY
          else if recursive then Inr (filter (\<lambda>e. \<not> prefix (segments p) (fst e)) fs)
          else if list_ex (\<lambda>e. strict_prefix (segments p) (fst e)) fs then Inl ENOTEMPTY
          else Inr (AList.delete (segments p) fs))"

section \<open>Sessions, child processes and the server state\<close>

text \<open>
  A socket is named by a number. A child process is the object \<^verbatim>\<open>spawn\<close> or \<^verbatim>\<open>exec\<close>
  returns: what was launched, and the listeners the server attached to it. A listener is
  a closure of \<^verbatim>\<open>app.post('/api/execute/:previewId')\<close>; it carries the variables it
  captured (the container object, \<^verbatim>\<open>previewId\<close>, \<^verbatim>\<open>processId\<close>, the stream name).
\<close>

type_synonym ws = nat

datatype event_name = On_exit | On_error | On_done | On_stdout | On_stderr

datatype listener =
    Completed_exit nat string string
  | Completed_exec nat string string
  | Output string string string

record child =
  ch_file :: string
  ch_args :: "string list"
  ch_cwd :: string
  ch_env :: "string \<rightharpoonup> string"
  ch_stdin :: bool
  ch_resize :: bool
  ch_listeners :: "(event_name \<times> listener) list"

text \<open>
  The object \<^verbatim>\<open>createContainer\<close> returns. \<open>c_ref\<close> is the identity of the object: a closure
  that captured a container still holds the old object after the registry entry was
  deleted and created again. \<open>clients\<close> is the \<^verbatim>\<open>Set\<close> of sockets in insertion order.
\<close>

record container =
  c_ref :: nat
  c_id :: string
  c_dir :: string
  clients :: "ws list"
  files :: "string \<rightharpoonup> utf16"
  processes :: "string \<rightharpoonup> child"

text \<open>
  The state of the server process: the registry \<^verbatim>\<open>containers\<close>, the storage, the
  environment \<^verbatim>\<open>process.env\<close>, the sockets whose \<^verbatim>\<open>readyState\<close> is OPEN, every frame passed to
  \<^verbatim>\<open>send\<close> with its socket, the pending clean-up timers, and every text written to the
  standard input of a child.
\<close>

record state =
  containers :: "string \<rightharpoonup> container"
  next_ref :: nat
  storage :: fs
  env :: "string \<rightharpoonup> string"
  open_ws :: "ws set"
  sent :: "(ws \<times> msg) list"
  timers :: "string list"
  stdin_writes :: "(string \<times> string) list"

text \<open>
  The answer to a request: \<^verbatim>\<open>res.json(body)\<close>, \<^verbatim>\<open>res.status(n).json(body)\<close>, the body
  \<^verbatim>\<open>{ content }\<close> of a read with the content as code units, the answer
  \<^verbatim>\<open>res.status(500).json({ error: error.message })\<close> of a handler that caught the exception,
  and the status 500 the framework gives for an exception the handler did not catch.
\<close>

datatype response =
    Json msg
  | Status nat msg
  | Content utf16
  | Error500 exn
  | Unhandled500 exn

subsection \<open>The registry\<close>

text \<open>
  \<^verbatim>\<open>createContainer\<close>, lines 62 to 74 of \<^verbatim>\<open>src/server.js\<close>. An exception comes with the state
  the server is in when it is thrown.
\<close>

definition createContainer :: "string \<Rightarrow> state \<Rightarrow> exn \<times> state + container \<times> state" where
  "createContainer previewId st =
     (let containerDir = path_join ''/data'' previewId
      in case mkdirSync (storage st) containerDir of
           Inl (e, fs') \<Rightarrow> Inl (FsError e, st\<lparr>storage := fs'\<rparr>)
         | Inr fs' \<Rightarrow>
             Inr (\<lparr>c_ref = next_ref st, c_id = previewId, c_dir = containerDir,
                   clients = [], files = Map.empty, processes = Map.empty\<rparr>,
                  st\<lparr>storage := fs', next_ref := Suc (next_ref st)\<rparr>))"

text \<open>
  The lookup every creating handler repeats:
  \<^verbatim>\<open>let container = containers.get(previewId); if (!container) { container = createContainer(previewId); containers.set(previewId, container); }\<close>
\<close>

definition getOrCreate :: "string \<Rightarrow> state \<Rightarrow> exn \<times> state + container \<times> state" where
  "getOrCreate previewId st =
     (case containers st previewId of
        Some container \<Rightarrow> Inr (container, st)
      | None \<Rightarrow>
          (case createContainer previewId st of
             Inl e \<Rightarrow> Inl e
           | Inr (container, st') \<Rightarrow>
               Inr (container, st'\<lparr>containers := (containers st')(previewId \<mapsto> container)\<rparr>)))"

text \<open>A change of a container object, seen through the registry while the object is registered.\<close>

definition update_container :: "nat \<Rightarrow> string \<Rightarrow> (container \<Rightarrow> container) \<Rightarrow> state \<Rightarrow> state" where
  "update_container r previewId f st =
     (case containers st previewId of
        None \<Rightarrow> st
      | Some c \<Rightarrow> if c_ref c = r then st\<lparr>containers := (containers st)(previewId \<mapsto> f c)\<rparr> else st)"

subsection \<open>Sending and broadcasting\<close>

definition ws_send :: "ws \<Rightarrow> msg \<Rightarrow> state \<Rightarrow> state" where
  "ws_send w m st = st\<lparr>sent := sent st @ [(w, m)]\<rparr>"

text \<open>\<^verbatim>\<open>broadcastToContainer\<close>, lines 248 to 268.\<close>

definition broadcastToContainer :: "string \<Rightarrow> msg \<Rightarrow> state \<Rightarrow> state" where
  "broadcastToContainer previewId data st =
     (case containers st previewId of
        None \<Rightarrow> st
      | Some container \<Rightarrow>
          st\<lparr>sent := sent st @ map (\<lambda>client. (client, data))
                                (filter (\<lambda>client. client \<in> open_ws st) (clients container))\<rparr>)"

subsection \<open>The connection handler\<close>

definition set_add :: "ws \<Rightarrow> ws list \<Rightarrow> ws list" where
  "set_add w xs = (if w \<in> set xs then xs else xs @ [w])"

definition ws_close :: "ws \<Rightarrow> state \<Rightarrow> state" where
  "ws_close w st = st\<lparr>open_ws := open_ws st - {w}\<rparr>"

text \<open>
  \<^verbatim>\<open>wss.on('connection')\<close>, lines 77 to 104 of \<^verbatim>\<open>src/server.js\<close>. The socket is open when the
  event fires; \<open>previewId\<close> is the query parameter (\<open>None\<close> when absent) and \<open>now\<close> is
  \<^verbatim>\<open>Date.now()\<close>. An exception of \<^verbatim>\<open>createContainer\<close> is not caught here.
\<close>

definition connection :: "ws \<Rightarrow> string option \<Rightarrow> 54 word \<Rightarrow> state \<Rightarrow> exn \<times> state + state" where
  "connection w previewId now st0 =
     (let st = st0\<lparr>open_ws := insert w (open_ws st0)\<rparr>
      in case previewId of
           None \<Rightarrow> Inr (ws_close w st)
         | Some pid \<Rightarrow>
             if pid = [] then Inr (ws_close w st)
             else (case getOrCreate pid st of
                     Inl e \<Rightarrow> Inl e
                   | Inr (container, st1) \<Rightarrow>
                       Inr (ws_send w
                              [(''type'', JStr ''connection-established''),
                               (''previewId'', JStr pid),
                               (''timestamp'', JNum now)]
                              (update_container (c_ref container) pid
                                 (\<lambda>c. c\<lparr>clients := set_add w (clients c)\<rparr>) st1))))"

text \<open>
  The same handler in the other revision of the server, lines 110 to 146 of
  \<^verbatim>\<open>src/unnamed/part_000\<close>: it also reads the query parameter \<^verbatim>\<open>processId\<close>, the
  acknowledgement carries \<^verbatim>\<open>processId\<close> and \<^verbatim>\<open>clientCount: container.clients.size\<close>, and an
  exception closes the socket.
\<close>

definition connection_part_000 :: "ws \<Rightarrow> string option \<Rightarrow> string option \<Rightarrow> 54 word \<Rightarrow> state \<Rightarrow> state" where
  "connection_part_000 w previewId processId now st0 =
     (let st = st0\<lparr>open_ws := insert w (open_ws st0)\<rparr>
      in case previewId of
           None \<Rightarrow> ws_close w st
         | Some pid \<Rightarrow>
             if pid = [] then ws_close w st
             else (case getOrCreate pid st of
                     Inl (e, st1) \<Rightarrow> ws_close w st1
                   | Inr (container, st1) \<Rightarrow>
                       ws_send w
                         [(''type'', JStr ''connection-established''),
                          (''previewId'', JStr pid),
                          (''processId'', (case processId of None \<Rightarrow> JNull | Some k \<Rightarrow> JStr k)),
                          (''timestamp'', JNum now),
                          (''clientCount'', JNum (of_nat (length (set_add w (clients container)))))]
                         (update_container (c_ref container) pid
                            (\<lambda>c. c\<lparr>clients := set_add w (clients c)\<rparr>) st1)))"

text \<open>
  The \<^verbatim>\<open>resize\<close> method given to an interactive child, lines 535 to 545: it assigns to
  \<^verbatim>\<open>process.env\<close>, the environment of the server itself. An exception of \<^verbatim>\<open>toString\<close> is
  caught and leaves what was assigned before it.
\<close>

definition resize :: "json \<Rightarrow> json \<Rightarrow> state \<Rightarrow> state" where
  "resize cols rows st =
     (case js_toString cols of
        None \<Rightarrow> st
      | Some c \<Rightarrow>
          (case js_toString rows of
             None \<Rightarrow> st\<lparr>env := (env st)(''COLUMNS'' \<mapsto> c)\<rparr>
           | Some r \<Rightarrow> st\<lparr>env := (env st)(''COLUMNS'' \<mapsto> c, ''LINES'' \<mapsto> r)\<rparr>))"

text \<open>
  The branches for \<^verbatim>\<open>terminal-input\<close> (lines 150 to 172) and \<^verbatim>\<open>terminal-resize\<close> (173 to
  195). Before it calls \<^verbatim>\<open>process.resize\<close>, the resize branch logs the geometry with a
  template literal (line 191), which converts both values to strings; an exception of the
  conversion reaches the \<^verbatim>\<open>catch\<close> of the handler and nothing is assigned.
\<close>

definition terminal_input :: "container \<Rightarrow> json \<Rightarrow> state \<Rightarrow> state" where
  "terminal_input container data st =
     (case (get_prop data ''processId'', get_prop data ''input'') of
        (Inr processId, Inr input) \<Rightarrow>
          if falsy processId \<or> falsy input then st
          else (case processId of
                  Some (JStr k) \<Rightarrow>
                    (case processes container k of
                       None \<Rightarrow> st
                     | Some process \<Rightarrow>
                         if ch_stdin process then
                           (case input of
                              Some (JStr text) \<Rightarrow> st\<lparr>stdin_writes := stdin_writes st @ [(k, text)]\<rparr>
                            | _ \<Rightarrow> st)
                         else st)
                | _ \<Rightarrow> st)
      | _ \<Rightarrow> st)"

definition terminal_resize :: "container \<Rightarrow> json \<Rightarrow> state \<Rightarrow> state" where
  "terminal_resize container data st =
     (case (get_prop data ''processId'', get_prop data ''cols'', get_prop data ''rows'') of
        (Inr processId, Inr cols, Inr rows) \<Rightarrow>
          if falsy processId \<or> falsy cols \<or> falsy rows then st
          else (case (processId, cols, rows) of
                  (Some (JStr k), Some c, Some r) \<Rightarrow>
                    (case processes container k of
                       None \<Rightarrow> st
                     | Some process \<Rightarrow>
                         if ch_resize process then
                           (case js_toString c of
                              None \<Rightarrow> st
                            | Some cols_text \<Rightarrow>
                                (case js_toString r of
                                   None \<Rightarrow> st
                                 | Some rows_text \<Rightarrow> resize c r st))
                         else st)
                | _ \<Rightarrow> st)
      | _ \<Rightarrow> st)"

text \<open>
  \<^verbatim>\<open>ws.on('message')\<close>, lines 106 to 200. \<open>parsed\<close> is the outcome of
  \<^verbatim>\<open>JSON.parse(message.toString())\<close>, \<open>None\<close> when it throws. Every exception inside the
  handler is caught by its \<^verbatim>\<open>catch\<close>, which only logs.
\<close>

definition message :: "ws \<Rightarrow> string \<Rightarrow> json option \<Rightarrow> 54 word \<Rightarrow> state \<Rightarrow> state" where
  "message w previewId parsed now st =
     (case parsed of
        None \<Rightarrow> st
      | Some data \<Rightarrow>
          (case get_prop data ''type'' of
             Inl e \<Rightarrow> st
           | Inr ty \<Rightarrow>
               if falsy ty then
                 ws_send w [(''type'', JStr ''error''),
                            (''error'', JStr ''Missing type field in message''),
                            (''timestamp'', JNum now)] st
               else (case containers st previewId of
                       None \<Rightarrow>
                         ws_send w [(''type'', JStr ''error''),
                                    (''error'', JStr ''Container not found''),
                                    (''previewId'', JStr previewId),
                                    (''timestamp'', JNum now)] st
                     | Some container \<Rightarrow>
                         if ty = Some (JStr ''file-change'') then
                           broadcastToContainer previewId
                             [(''type'', JStr ''refresh-preview''), (''previewId'', JStr previewId)] st
                         else if ty = Some (JStr ''preview-ready'') then
                           broadcastToContainer previewId
                             [(''type'', JStr ''preview-ready''), (''previewId'', JStr previewId),
                              (''url'', JStr (''/preview/'' @ previewId)), (''timestamp'', JNum now)] st
                         else if ty = Some (JStr ''terminal-input'') then terminal_input container data st
                         else if ty = Some (JStr ''terminal-resize'') then terminal_resize container data st
                         else st)))"

text \<open>
  \<^verbatim>\<open>ws.on('close')\<close>, lines 202 to 225: the socket is no longer open, it leaves the set of
  clients, and a timer is armed when the set is empty. The callback of the timer, lines
  214 to 220, is \<open>cleanup\<close>.
\<close>

definition close :: "ws \<Rightarrow> string \<Rightarrow> state \<Rightarrow> state" where
  "close w previewId st0 =
     (let st = ws_close w st0
      in case containers st previewId of
           None \<Rightarrow> st
         | Some container \<Rightarrow>
             (let container' = container\<lparr>clients := removeAll w (clients container)\<rparr>;
                  st1 = st\<lparr>containers := (containers st)(previewId \<mapsto> container')\<rparr>
              in if length (clients container') = 0
                 then st1\<lparr>timers := timers st1 @ [previewId]\<rparr>
                 else st1))"

definition cleanup :: "string \<Rightarrow> state \<Rightarrow> state" where
  "cleanup previewId st0 =
     (let st = st0\<lparr>timers := remove1 previewId (timers st0)\<rparr>
      in case containers st previewId of
           None \<Rightarrow> st
         | Some container \<Rightarrow>
             if length (clients container) = 0
             then st\<lparr>containers := (containers st)(previewId := None)\<rparr>
             else st)"

subsection \<open>The file endpoints\<close>

text \<open>
  \<^verbatim>\<open>app.post('/api/files/write/:previewId')\<close>, lines 271 to 308. \<open>filePath\<close> is empty when the
  body has no path, \<open>content\<close> is \<open>None\<close> when the body has no content; the content is a
  string. An exception of \<^verbatim>\<open>createContainer\<close> is raised outside the \<^verbatim>\<open>try\<close> and answered by
  the framework with status 500.
\<close>

definition files_write :: "string \<Rightarrow> string \<Rightarrow> utf16 option \<Rightarrow> state \<Rightarrow> response \<times> state" where
  "files_write previewId filePath content st =
     (case content of
        None \<Rightarrow> (Status 400 [(''error'', JStr ''Missing required parameters'')], st)
      | Some text \<Rightarrow>
          if filePath = [] then (Status 400 [(''error'', JStr ''Missing required parameters'')], st)
          else (case getOrCreate previewId st of
                  Inl (e, st1) \<Rightarrow> (Unhandled500 e, st1)
                | Inr (container, st1) \<Rightarrow>
                    (let fullPath = path_join (c_dir container) filePath
                     in case mkdirSync (storage st1) (path_dirname fullPath) of
                          Inl (e, fs1) \<Rightarrow> (Error500 (FsError e), st1\<lparr>storage := fs1\<rparr>)
                        | Inr fs1 \<Rightarrow>
                            (case writeFileSync fs1 fullPath text of
                               Inl e \<Rightarrow> (Error500 (FsError e), st1\<lparr>storage := fs1\<rparr>)
                             | Inr fs2 \<Rightarrow>
                                 (Json [(''success'', JBool True)],
                                  broadcastToContainer previewId
                                    [(''type'', JStr ''file-change''), (''previewId'', JStr previewId),
                                     (''path'', JStr filePath)]
                                    (update_container (c_ref container) previewId
                                       (\<lambda>c. c\<lparr>files := (files c)(filePath \<mapsto> text)\<rparr>)
                                       (st1\<lparr>storage := fs2\<rparr>)))))))"

text \<open>\<^verbatim>\<open>app.post('/api/files/rm/:previewId')\<close>, lines 383 to 426.\<close>

definition files_rm :: "string \<Rightarrow> string \<Rightarrow> bool \<Rightarrow> state \<Rightarrow> response \<times> state" where
  "files_rm previewId filePath recursive st =
     (if filePath = [] then (Status 400 [(''error'', JStr ''Missing path parameter'')], st)
      else case containers st previewId of
             None \<Rightarrow> (Status 404 [(''error'', JStr ''Container not found'')], st)
           | Some container \<Rightarrow>
               (let fullPath = path_join (c_dir container) filePath
                in if \<not> existsSync (storage st) fullPath
                   then (Status 404 [(''error'', JStr ''File or directory not found'')], st)
                   else (case (case statSync (storage st) fullPath of
                                 Inl e \<Rightarrow> Inl e
                               | Inr Dir \<Rightarrow> rmdirSync (storage st) fullPath recursive
                               | Inr (File c) \<Rightarrow> unlinkSync (storage st) fullPath) of
                           Inl e \<Rightarrow> (Error500 (FsError e), st)
                         | Inr fs' \<Rightarrow>
                             (Json [(''success'', JBool True)],
                              broadcastToContainer previewId
                                [(''type'', JStr ''file-change''), (''previewId'', JStr previewId),
                                 (''path'', JStr filePath)]
                                (update_container (c_ref container) previewId
                                   (\<lambda>c. c\<lparr>files := (files c)(filePath := None)\<rparr>)
                                   (st\<lparr>storage := fs'\<rparr>))))))"

text \<open>\<^verbatim>\<open>app.get('/api/files/read/:previewId')\<close>, lines 428 to 460.\<close>

definition files_read :: "string \<Rightarrow> string \<Rightarrow> state \<Rightarrow> response \<times> state" where
  "files_read previewId filePath st =
     (if filePath = [] then (Status 400 [(''error'', JStr ''Missing path parameter'')], st)
      else case containers st previewId of
             None \<Rightarrow> (Status 404 [(''error'', JStr ''Container not found'')], st)
           | Some container \<Rightarrow>
               (case files container filePath of
                  Some cached \<Rightarrow> (Content cached, st)
                | None \<Rightarrow>
                    (let fullPath = path_join (c_dir container) filePath
                     in if existsSync (storage st) fullPath
                        then (case readFileSync (storage st) fullPath of
                                Inl e \<Rightarrow> (Error500 (FsError e), st)
                              | Inr content \<Rightarrow>
                                  (Content content,
                                   update_container (c_ref container) previewId
                                     (\<lambda>c. c\<lparr>files := (files c)(filePath \<mapsto> content)\<rparr>) st))
                        else (Status 404 [(''error'', JStr ''File not found'')], st))))"

subsection \<open>Executing commands\<close>

text \<open>
  The body of an execute request after destructuring: \<open>command\<close> is empty when missing,
  \<open>cwd\<close> and \<open>terminal\<close> are \<open>None\<close> when missing (the defaults of the source are applied
  below), the terminal geometry is a pair of whole numbers.
\<close>

record exec_request =
  command :: string
  args :: "string list"
  cwd :: "string option"
  terminal :: "(54 word \<times> 54 word) option"

text \<open>The two listeners every child gets after it is stored, lines 640 to 660.\<close>

definition output_listeners :: "string \<Rightarrow> string \<Rightarrow> (event_name \<times> listener) list" where
  "output_listeners previewId processId =
     [(On_stdout, Output previewId processId ''stdout''),
      (On_stderr, Output previewId processId ''stderr'')]"

text \<open>
  \<^verbatim>\<open>execOptions.env\<close>, lines 506 to 520: a copy of \<^verbatim>\<open>process.env\<close> with the terminal
  variables, and with the geometry of the request when both numbers are given.
\<close>

definition exec_env ::
  "(string \<rightharpoonup> string) \<Rightarrow> (54 word \<times> 54 word) option \<Rightarrow> (string \<rightharpoonup> string)" where
  "exec_env process_env term =
     (let env0 = process_env(''TERM'' \<mapsto> ''xterm-256color'',
                             ''COLORTERM'' \<mapsto> ''truecolor'',
                             ''TERM_PROGRAM'' \<mapsto> ''bolt'')
      in case term of
           None \<Rightarrow> env0
         | Some (cols, rows) \<Rightarrow>
             if cols \<noteq> 0 \<and> rows \<noteq> 0
             then env0(''COLUMNS'' \<mapsto> show_int (sint cols), ''LINES'' \<mapsto> show_int (sint rows))
             else env0)"

text \<open>
  The child and its listeners, lines 523 to 660. An interactive shell is started with
  \<^verbatim>\<open>spawn\<close> (lines 526 to 585) and gets the \<^verbatim>\<open>resize\<close> method, an exit handler and two output
  handlers; any other command is started with \<^verbatim>\<open>exec\<close> (lines 587 to 627), whose callback
  reports the completion, and gets two output handlers. \<^verbatim>\<open>exec\<close> itself listens for the
  \<^verbatim>\<open>error\<close> event of its child and passes the error to the callback. Both kinds of child
  have a standard input, and both get the two listeners of lines 640 to 660 on top.
\<close>

definition start_child ::
  "nat \<Rightarrow> string \<Rightarrow> string \<Rightarrow> string \<Rightarrow> string list \<Rightarrow> string \<Rightarrow> (string \<rightharpoonup> string) \<Rightarrow> child" where
  "start_child r previewId processId commandToExecute argsToUse workingDir child_env =
     (let isInteractiveShell = (commandToExecute = ''/bin/bash'')
      in if isInteractiveShell then
           \<lparr>ch_file = commandToExecute, ch_args = argsToUse, ch_cwd = workingDir,
            ch_env = child_env, ch_stdin = True, ch_resize = True,
            ch_listeners =
              [(On_exit, Completed_exit r previewId processId),
               (On_stdout, Output previewId processId ''stdout''),
               (On_stderr, Output previewId processId ''stderr'')]
              @ output_listeners previewId processId\<rparr>
         else
           \<lparr>ch_file = commandToExecute @ '' '' @ join_with '' '' argsToUse,
            ch_args = [], ch_cwd = workingDir,
            ch_env = child_env, ch_stdin = True, ch_resize = False,
            ch_listeners =
              [(On_done, Completed_exec r previewId processId),
               (On_error, Completed_exec r previewId processId),
               (On_stdout, Output previewId processId ''stdout''),
               (On_stderr, Output previewId processId ''stderr'')]
              @ output_listeners previewId processId\<rparr>)"

text \<open>
  \<^verbatim>\<open>app.post('/api/execute/:previewId')\<close>, lines 463 to 665; \<open>processId\<close> is the value of
  \<^verbatim>\<open>uuidv4()\<close>. The shell \<^verbatim>\<open>/bin/jsh\<close> is replaced by \<^verbatim>\<open>/bin/bash\<close> and loses its \<^verbatim>\<open>--osc\<close>
  argument.
\<close>

definition execute :: "string \<Rightarrow> exec_request \<Rightarrow> string \<Rightarrow> state \<Rightarrow> response \<times> state" where
  "execute previewId req processId st =
     (if command req = [] then (Status 400 [(''error'', JStr ''Missing command parameter'')], st)
      else case getOrCreate previewId st of
             Inl (e, st1) \<Rightarrow> (Unhandled500 e, st1)
           | Inr (container, st1) \<Rightarrow>
               (let workingDir = path_join (c_dir container) (case cwd req of None \<Rightarrow> ''/'' | Some d \<Rightarrow> d)
                in case mkdirSync (storage st1) workingDir of
                     Inl (e, fs') \<Rightarrow> (Error500 (FsError e), st1\<lparr>storage := fs'\<rparr>)
                   | Inr fs' \<Rightarrow>
                       (let st2 = st1\<lparr>storage := fs'\<rparr>;
                            commandToExecute = (if command req = ''/bin/jsh'' then ''/bin/bash'' else command req);
                            argsToUse = (if command req = ''/bin/jsh''
                                         then filter (\<lambda>arg. arg \<noteq> ''--osc'') (args req) else args req);
                            childProcess = start_child (c_ref container) previewId processId
                                             commandToExecute argsToUse workingDir
                                             (exec_env (env st2) (terminal req))
                        in (Json [(''processId'', JStr processId)],
                            update_container (c_ref container) previewId
                              (\<lambda>c. c\<lparr>processes := (processes c)(processId \<mapsto> childProcess)\<rparr>) st2))))"

subsection \<open>Events of a child process\<close>

text \<open>
  What the runtime reports about a child: a chunk on one of its output streams; its exit
  with a code (\<open>None\<close> is \<^verbatim>\<open>null\<close>, ended by a signal); the completion reported to the
  callback of \<^verbatim>\<open>exec\<close>, with the \<^verbatim>\<open>code\<close> of the error if there is one and both buffers; and
  the \<^verbatim>\<open>error\<close> event of a child that could not be started, with its error code.
\<close>

datatype proc_event =
    Ev_stdout string
  | Ev_stderr string
  | Ev_exit "54 word option"
  | Ev_done "json option" string string
  | Ev_error string

fun event_name_of :: "proc_event \<Rightarrow> event_name" where
  "event_name_of (Ev_stdout chunk) = On_stdout"
| "event_name_of (Ev_stderr chunk) = On_stderr"
| "event_name_of (Ev_exit code) = On_exit"
| "event_name_of (Ev_done error out err) = On_done"
| "event_name_of (Ev_error code) = On_error"

definition process_output :: "string \<Rightarrow> string \<Rightarrow> string \<Rightarrow> string \<Rightarrow> msg" where
  "process_output previewId processId output stream =
     [(''type'', JStr ''process-output''), (''previewId'', JStr previewId),
      (''processId'', JStr processId), (''output'', JStr output), (''stream'', JStr stream)]"

definition process_completed :: "string \<Rightarrow> string \<Rightarrow> json \<Rightarrow> string \<Rightarrow> string \<Rightarrow> msg" where
  "process_completed previewId processId exitCode out err =
     [(''type'', JStr ''process-completed''), (''previewId'', JStr previewId),
      (''processId'', JStr processId), (''exitCode'', exitCode),
      (''stdout'', JStr out), (''stderr'', JStr err)]"

definition forget_process :: "nat \<Rightarrow> string \<Rightarrow> string \<Rightarrow> state \<Rightarrow> state" where
  "forget_process r previewId processId st =
     update_container r previewId (\<lambda>c. c\<lparr>processes := (processes c)(processId := None)\<rparr>) st"

text \<open>
  The bodies of the listeners: the exit handler of an interactive child (lines 548 to
  561, \<^verbatim>\<open>exitCode: code || 0\<close>), the callback of \<^verbatim>\<open>exec\<close> (lines 591 to 604,
  \<^verbatim>\<open>exitCode: error ? error.code : 0\<close>), and the output handlers.
\<close>

fun run_listener :: "listener \<Rightarrow> proc_event \<Rightarrow> state \<Rightarrow> state" where
  "run_listener (Completed_exit r previewId processId) (Ev_exit code) st =
     broadcastToContainer previewId
       (process_completed previewId processId
          (JNum (case code of None \<Rightarrow> 0 | Some n \<Rightarrow> n)) [] [])
       (forget_process r previewId processId st)"
| "run_listener (Completed_exec r previewId processId) (Ev_done error out err) st =
     broadcastToContainer previewId
       (process_completed previewId processId
          (case error of None \<Rightarrow> JNum 0 | Some code \<Rightarrow> code) out err)
       (forget_process r previewId processId st)"
| "run_listener (Completed_exec r previewId processId) (Ev_error code) st =
     broadcastToContainer previewId
       (process_completed previewId processId (JStr code) [] [])
       (forget_process r previewId processId st)"
| "run_listener (Output previewId processId stream) (Ev_stdout chunk) st =
     broadcastToContainer previewId (process_output previewId processId chunk stream) st"
| "run_listener (Output previewId processId stream) (Ev_stderr chunk) st =
     broadcastToContainer previewId (process_output previewId processId chunk stream) st"
| "run_listener l ev st = st"

text \<open>
  Emitting an event runs the listeners registered for it, in the order of registration.
  An \<^verbatim>\<open>error\<close> event with no listener is thrown as an exception that nothing catches.
\<close>

definition listeners_for :: "child \<Rightarrow> proc_event \<Rightarrow> listener list" where
  "listeners_for ch ev = map snd (filter (\<lambda>e. fst e = event_name_of ev) (ch_listeners ch))"

definition emit :: "child \<Rightarrow> proc_event \<Rightarrow> state \<Rightarrow> exn + state" where
  "emit ch ev st =
     (case ev of
        Ev_error code \<Rightarrow>
          if listeners_for ch ev = [] then Inl (UnhandledError code)
          else Inr (fold (\<lambda>l. run_listener l ev) (listeners_for ch ev) st)
      | _ \<Rightarrow> Inr (fold (\<lambda>l. run_listener l ev) (listeners_for ch ev) st))"

text \<open>The server right after start: nothing registered, an empty volume mounted at /data.\<close>

definition initial :: state where
  "initial = \<lparr>containers = Map.empty, next_ref = 0, storage = [([''data''], Dir)],
              env = Map.empty, open_ws = {}, sent = [], timers = [], stdin_writes = []\<rparr>"

section \<open>Facts about the encoding of file contents\<close>

lemma unat_byte: "n < 256 \<Longrightarrow> unat (of_nat n :: 8 word) = n"
  by (simp add: unat_of_nat)

lemma dec_ascii: "b \<le> 0x7F \<Longrightarrow> utf8_dec cp 0 lo hi (b # bs) = b # utf8_dec 0 0 0x80 0xBF bs"
  by (simp add: utf8_dec.simps)

lemma dec_lead2: "0xC2 \<le> b \<Longrightarrow> b \<le> 0xDF \<Longrightarrow>
  utf8_dec cp 0 lo hi (b # bs) = utf8_dec (b mod 32) 1 0x80 0xBF bs"
  by (simp add: utf8_dec.simps)

lemma dec_lead3: "0xE0 \<le> b \<Longrightarrow> b \<le> 0xEF \<Longrightarrow>
  utf8_dec cp 0 lo hi (b # bs) =
    utf8_dec (b mod 16) 2 (if b = 0xE0 then 0xA0 else 0x80) (if b = 0xED then 0x9F else 0xBF) bs"
  by (simp add: utf8_dec.simps)

lemma dec_lead4: "0xF0 \<le> b \<Longrightarrow> b \<le> 0xF4 \<Longrightarrow>
  utf8_dec cp 0 lo hi (b # bs) =
    utf8_dec (b mod 8) 3 (if b = 0xF0 then 0x90 else 0x80) (if b = 0xF4 then 0x8F else 0xBF) bs"
  by (simp add: utf8_dec.simps)

lemma dec_last: "lo \<le> b \<Longrightarrow> b \<le> hi \<Longrightarrow>
  utf8_dec cp (Suc 0) lo hi (b # bs) = (cp * 64 + b mod 64) # utf8_dec 0 0 0x80 0xBF bs"
  by (simp add: utf8_dec.simps)

lemma dec_cont: "lo \<le> b \<Longrightarrow> b \<le> hi \<Longrightarrow>
  utf8_dec cp (Suc (Suc n)) lo hi (b # bs) = utf8_dec (cp * 64 + b mod 64) (Suc n) 0x80 0xBF bs"
  by (simp add: utf8_dec.simps)

lemma mod_off: "(q::nat) < n \<Longrightarrow> (k * n + q) mod n = q"
  by simp

lemma mod_off64: "(128 + (r::nat) mod 64) mod 64 = r mod 64"
  using mod_off[of "r mod 64" 64 2] by simp

lemma div_lt: "(c::nat) < k * n \<Longrightarrow> c div n < k"
  by (simp add: less_mult_imp_div_less)

lemma div_ge: "0 < n \<Longrightarrow> k * n \<le> (c::nat) \<Longrightarrow> k \<le> c div n"
  by (simp add: less_eq_div_iff_mult_less_eq)

lemma div_div_64: "(c::nat) div 4096 * 64 + c div 64 mod 64 = c div 64"
proof -
  have "c div 4096 = c div 64 div 64" by (simp add: div_mult2_eq)
  then show ?thesis by simp
qed

lemma div_div_4096: "(c::nat) div 262144 * 64 + c div 4096 mod 64 = c div 4096"
proof -
  have "c div 262144 = c div 4096 div 64" by (simp add: div_mult2_eq)
  then show ?thesis by simp
qed

lemma mod64_lt: "(r::nat) mod 64 < 64" by simp

lemma cont_byte:
  "unat (of_nat (128 + (r::nat) mod 64) :: 8 word) = 128 + r mod 64"
  "128 \<le> 128 + (r::nat) mod 64" "128 + (r::nat) mod 64 \<le> 191"
proof -
  have "r mod 64 < 64" by simp
  then show "unat (of_nat (128 + r mod 64) :: 8 word) = 128 + r mod 64"
    by (intro unat_byte) linarith
  show "128 \<le> 128 + r mod 64" by simp
  show "128 + r mod 64 \<le> 191" using \<open>r mod 64 < 64\<close> by linarith
qed

lemma dec_scalar1:
  assumes "c < 0x80"
  shows "utf8_dec 0 0 0x80 0xBF (map unat (utf8_of_scalar c) @ rest) = c # utf8_dec 0 0 0x80 0xBF rest"
  using assms by (simp add: utf8_of_scalar_def unat_byte dec_ascii)

lemma dec_scalar2:
  assumes "0x80 \<le> c" "c < 0x800"
  shows "utf8_dec 0 0 0x80 0xBF (map unat (utf8_of_scalar c) @ rest) = c # utf8_dec 0 0 0x80 0xBF rest"
proof -
  let ?q = "c div 64"
  have q: "?q < 32" "2 \<le> ?q" using assms by (auto intro: div_lt div_ge)
  have b0: "unat (of_nat (192 + ?q) :: 8 word) = 192 + ?q" using q by (intro unat_byte) linarith
  have m: "(192 + ?q) mod 32 = ?q" using mod_off[of ?q 32 6] q by simp
  have e: "utf8_of_scalar c = [of_nat (192 + ?q), of_nat (128 + c mod 64)]"
    using assms by (simp add: utf8_of_scalar_def)
  have "utf8_dec 0 0 0x80 0xBF (map unat (utf8_of_scalar c) @ rest)
        = utf8_dec 0 0 0x80 0xBF ((192 + ?q) # (128 + c mod 64) # rest)"
    by (simp only: e list.map append.simps b0 cont_byte(1))
  also have "\<dots> = utf8_dec ?q 1 0x80 0xBF ((128 + c mod 64) # rest)"
    using q by (simp add: dec_lead2 m)
  also have "\<dots> = (?q * 64 + c mod 64) # utf8_dec 0 0 0x80 0xBF rest"
    using cont_byte(2,3)[of c] by (simp add: dec_last mod_off64)
  finally show ?thesis by simp
qed

lemma lt_of_div: "0 < n \<Longrightarrow> (c::nat) div n < k \<Longrightarrow> c < k * n"
  by (simp add: div_less_iff_less_mult)

lemma dec_scalar3:
  assumes "0x800 \<le> c" "c < 0x10000" "valid_scalar c"
  shows "utf8_dec 0 0 0x80 0xBF (map unat (utf8_of_scalar c) @ rest) = c # utf8_dec 0 0 0x80 0xBF rest"
proof -
  let ?q = "c div 4096"
  let ?m = "c div 64 mod 64"
  let ?lo = "if 224 + ?q = 0xE0 then 0xA0 else (0x80::nat)"
  let ?hi = "if 224 + ?q = 0xED then 0x9F else (0xBF::nat)"
  have q: "?q < 16" using assms by (auto intro: div_lt)
  have b0: "unat (of_nat (224 + ?q) :: 8 word) = 224 + ?q" using q by (intro unat_byte) linarith
  have m0: "(224 + ?q) mod 16 = ?q" using mod_off[of ?q 16 14] q by simp
  have split: "c div 64 = ?q * 64 + ?m" by (simp add: div_div_64)
  have mlt: "?m < 64" by simp
  have lo: "?lo \<le> 128 + ?m"
  proof (cases "?q = 0")
    case True
    have "32 \<le> c div 64" using assms by (auto intro: div_ge)
    then show ?thesis using True split by simp
  next
    case False
    then show ?thesis by simp
  qed
  have hi: "128 + ?m \<le> ?hi"
  proof (cases "?q = 13")
    case True
    then have "?q < 14" by simp
    then have "c < 14 * 4096" by (intro lt_of_div) simp_all
    then have "c < 0xD800" using assms(3) by (simp add: valid_scalar_def)
    then have "c div 64 < 864" by (intro div_lt) simp
    then have "?m < 32" using split True by linarith
    then show ?thesis using True by simp
  next
    case False
    then show ?thesis using mlt by simp
  qed
  have e: "utf8_of_scalar c = [of_nat (224 + ?q), of_nat (128 + ?m), of_nat (128 + c mod 64)]"
    using assms by (simp add: utf8_of_scalar_def)
  have "utf8_dec 0 0 0x80 0xBF (map unat (utf8_of_scalar c) @ rest)
        = utf8_dec 0 0 0x80 0xBF ((224 + ?q) # (128 + ?m) # (128 + c mod 64) # rest)"
    by (simp only: e list.map append.simps b0 cont_byte(1))
  also have "\<dots> = utf8_dec ?q (Suc (Suc 0)) ?lo ?hi ((128 + ?m) # (128 + c mod 64) # rest)"
    using q by (simp add: dec_lead3 m0 numeral_2_eq_2)
  also have "\<dots> = utf8_dec (?q * 64 + ?m) (Suc 0) 0x80 0xBF ((128 + c mod 64) # rest)"
    using lo hi by (simp only: dec_cont mod_off64 mod_mod_trivial)
  also have "\<dots> = ((?q * 64 + ?m) * 64 + c mod 64) # utf8_dec 0 0 0x80 0xBF rest"
    using cont_byte(2,3)[of c] by (simp only: dec_last mod_off64)
  also have "(?q * 64 + ?m) * 64 + c mod 64 = c"
    by (simp only: split[symmetric] div_mult_mod_eq)
  finally show ?thesis .
qed

lemma dec_scalar4:
  assumes "0x10000 \<le> c" "c < 0x110000"
  shows "utf8_dec 0 0 0x80 0xBF (map unat (utf8_of_scalar c) @ rest) = c # utf8_dec 0 0 0x80 0xBF rest"
proof -
  let ?q = "c div 262144"
  let ?m = "c div 4096 mod 64"
  let ?n = "c div 64 mod 64"
  let ?lo = "if 240 + ?q = 0xF0 then 0x90 else (0x80::nat)"
  let ?hi = "if 240 + ?q = 0xF4 then 0x8F else (0xBF::nat)"
  have q: "?q < 5" using assms by (auto intro: div_lt)
  have b0: "unat (of_nat (240 + ?q) :: 8 word) = 240 + ?q" using q by (intro unat_byte) linarith
  have m0: "(240 + ?q) mod 8 = ?q" using mod_off[of ?q 8 30] q by simp
  have split: "c div 4096 = ?q * 64 + ?m" by (simp add: div_div_4096)
  have split2: "c div 64 = c div 4096 * 64 + ?n" by (simp add: div_div_64)
  have mlt: "?m < 64" by simp
  have lo: "?lo \<le> 128 + ?m"
  proof (cases "?q = 0")
    case True
    have "16 \<le> c div 4096" using assms by (auto intro: div_ge)
    then show ?thesis using True split by simp
  next
    case False
    then show ?thesis by simp
  qed
  have hi: "128 + ?m \<le> ?hi"
  proof (cases "?q = 4")
    case True
    have "c div 4096 < 272" using assms by (intro div_lt) simp
    then have "?m < 16" using split True by linarith
    then show ?thesis using True by simp
  next
    case False
    then show ?thesis using mlt by simp
  qed
  have e: "utf8_of_scalar c =
            [of_nat (240 + ?q), of_nat (128 + ?m), of_nat (128 + ?n), of_nat (128 + c mod 64)]"
    using assms by (simp add: utf8_of_scalar_def)
  have "utf8_dec 0 0 0x80 0xBF (map unat (utf8_of_scalar c) @ rest)
        = utf8_dec 0 0 0x80 0xBF ((240 + ?q) # (128 + ?m) # (128 + ?n) # (128 + c mod 64) # rest)"
    by (simp only: e list.map append.simps b0 cont_byte(1))
  also have "\<dots> = utf8_dec ?q (Suc (Suc (Suc 0))) ?lo ?hi
                      ((128 + ?m) # (128 + ?n) # (128 + c mod 64) # rest)"
    using q by (simp add: dec_lead4 m0 numeral_3_eq_3)
  also have "\<dots> = utf8_dec (?q * 64 + ?m) (Suc (Suc 0)) 0x80 0xBF
                      ((128 + ?n) # (128 + c mod 64) # rest)"
    using lo hi by (simp only: dec_cont mod_off64 mod_mod_trivial)
  also have "\<dots> = utf8_dec ((?q * 64 + ?m) * 64 + ?n) (Suc 0) 0x80 0xBF ((128 + c mod 64) # rest)"
    using cont_byte(2,3)[of "c div 64"] by (simp only: dec_cont mod_off64 mod_mod_trivial)
  also have "\<dots> = (((?q * 64 + ?m) * 64 + ?n) * 64 + c mod 64) # utf8_dec 0 0 0x80 0xBF rest"
    using cont_byte(2,3)[of c] by (simp only: dec_last mod_off64)
  also have "((?q * 64 + ?m) * 64 + ?n) * 64 + c mod 64 = c"
    by (simp only: split[symmetric] split2[symmetric] div_mult_mod_eq)
  finally show ?thesis .
qed

lemma dec_scalar:
  assumes "valid_scalar c"
  shows "utf8_dec 0 0 0x80 0xBF (map unat (utf8_of_scalar c) @ rest) = c # utf8_dec 0 0 0x80 0xBF rest"
proof -
  have lt: "c < 0x110000" using assms by (auto simp: valid_scalar_def)
  consider "c < 0x80" | "0x80 \<le> c" "c < 0x800" | "0x800 \<le> c" "c < 0x10000" | "0x10000 \<le> c"
    by linarith
  then show ?thesis
    using assms lt by cases (simp_all add: dec_scalar1 dec_scalar2 dec_scalar3 dec_scalar4)
qed

lemma dec_scalars:
  "list_all valid_scalar cs \<Longrightarrow>
   utf8_dec 0 0 0x80 0xBF (map unat (concat (map utf8_of_scalar cs))) = cs"
  by (induction cs) (simp_all add: utf8_dec.simps dec_scalar)

lemma unat_unit_bounds: "unat (u::16 word) < 0x10000"
  using unsigned_less[of u, where ?'a = nat] by simp

lemma utf16_scalars_valid: "list_all valid_scalar (utf16_scalars t)"
proof (induction t rule: utf16_scalars.induct)
  case 1
  then show ?case by simp
next
  case (2 u)
  then show ?case
    using unat_unit_bounds[of u] by (auto simp: valid_scalar_def is_high_def is_low_def)
next
  case (3 u v us)
  then show ?case
    using unat_unit_bounds[of u]
    by (auto simp: valid_scalar_def is_high_def is_low_def)
qed

lemma unit_of_unat: "of_nat (unat (u::16 word)) = u"
  by simp

lemma utf16_of_pair:
  assumes "is_high u" "is_low v"
  shows "utf16_of_scalar (0x10000 + (unat u - 0xD800) * 0x400 + (unat v - 0xDC00)) = [u, v]"
proof -
  let ?h = "unat u - 0xD800"
  let ?l = "unat v - 0xDC00"
  have l: "?l < 0x400" using assms(2) unfolding is_low_def by linarith
  have hu: "0xD800 + ?h = unat u" using assms(1) unfolding is_high_def by linarith
  have lv: "0xDC00 + ?l = unat v" using assms(2) unfolding is_low_def by linarith
  have d: "(?h * 0x400 + ?l) div 0x400 = ?h" using l by simp
  have m: "(?h * 0x400 + ?l) mod 0x400 = ?l" using l by simp
  have "utf16_of_scalar (0x10000 + ?h * 0x400 + ?l)
        = [of_nat (0xD800 + (?h * 0x400 + ?l) div 0x400), of_nat (0xDC00 + (?h * 0x400 + ?l) mod 0x400)]"
    by (simp add: utf16_of_scalar_def)
  also have "\<dots> = [of_nat (unat u), of_nat (unat v)]"
    by (simp only: d m hu lv)
  finally show ?thesis by (simp only: unit_of_unat)
qed

lemma utf16_of_unit: "utf16_of_scalar (unat (u::16 word)) = [u]"
  using unat_unit_bounds[of u] by (simp add: utf16_of_scalar_def)

lemma utf16_scalars_inverse:
  "well_formed t \<Longrightarrow> concat (map utf16_of_scalar (utf16_scalars t)) = t"
proof (induction t rule: utf16_scalars.induct)
  case 1
  then show ?case by simp
next
  case (2 u)
  then show ?case by (simp add: utf16_of_unit)
next
  case (3 u v us)
  show ?case
  proof (cases "is_high u")
    case True
    with 3 show ?thesis by (simp add: utf16_of_pair)
  next
    case False
    with 3 show ?thesis by (simp add: utf16_of_unit)
  qed
qed

lemma utf8_decode_encode:
  "utf8_decode (utf8_encode t) = concat (map utf16_of_scalar (utf16_scalars t))"
  by (simp add: utf8_decode_def utf8_encode_def dec_scalars utf16_scalars_valid)

lemma utf8_roundtrip: "well_formed t \<Longrightarrow> utf8_decode (utf8_encode t) = t"
  by (simp add: utf8_decode_encode utf16_scalars_inverse)

section \<open>Facts about paths and the registry\<close>




lemma getOrCreate_w_initial:
  "getOrCreate ''w'' (initial\<lparr>open_ws := S\<rparr>) =
     Inr (\<lparr>c_ref = 0, c_id = ''w'', c_dir = ''/data/w'', clients = [], files = Map.empty,
           processes = Map.empty\<rparr>,
          initial\<lparr>open_ws := S, storage := [([''data''], Dir), ([''data'', ''w''], Dir)],
                  next_ref := Suc 0,
                  containers := [''w'' \<mapsto> \<lparr>c_ref = 0, c_id = ''w'', c_dir = ''/data/w'', clients = [],
                                          files = Map.empty, processes = Map.empty\<rparr>]\<rparr>)"
  by (simp add: getOrCreate_def createContainer_def initial_def path_join_def normalize_def
      mkdirSync_def path_errno_def segments_def Let_def)

lemma connection_w_initial:
  "connection w (Some ''w'') now initial =
     Inr (initial\<lparr>open_ws := {w}, storage := [([''data''], Dir), ([''data'', ''w''], Dir)],
                  next_ref := Suc 0,
                  containers := [''w'' \<mapsto> \<lparr>c_ref = 0, c_id = ''w'', c_dir = ''/data/w'', clients = [w],
                                          files = Map.empty, processes = Map.empty\<rparr>],
                  sent := [(w, [(''type'', JStr ''connection-established''),
                                (''previewId'', JStr ''w''), (''timestamp'', JNum now)])]\<rparr>)"
  by (simp add: connection_def Let_def getOrCreate_w_initial update_container_def ws_send_def
      set_add_def) (simp add: initial_def)

lemma getOrCreate_registered:
  assumes "getOrCreate pid st = Inr (c, st1)"
  shows "containers st1 pid = Some c" and "env st1 = env st" and "sent st1 = sent st"
    and "open_ws st1 = open_ws st"
  using assms
  by (auto simp: getOrCreate_def createContainer_def Let_def split: option.splits sum.splits)

lemma listeners_for_stdout:
  "listeners_for (start_child r previewId processId cmd as wd e) (Ev_stdout chunk) =
     [Output previewId processId ''stdout'', Output previewId processId ''stdout'']"
  by (simp add: listeners_for_def start_child_def output_listeners_def)

lemma listeners_for_stderr:
  "listeners_for (start_child r previewId processId cmd as wd e) (Ev_stderr chunk) =
     [Output previewId processId ''stderr'', Output previewId processId ''stderr'']"
  by (simp add: listeners_for_def start_child_def output_listeners_def)

lemma execute_registers:
  assumes "execute previewId req processId st = (Json body, st')"
  shows "\<exists>c st1. getOrCreate previewId st = Inr (c, st1) \<and>
           containers st' previewId =
             Some (c\<lparr>processes := (processes c)(processId \<mapsto>
                start_child (c_ref c) previewId processId
                  (if command req = ''/bin/jsh'' then ''/bin/bash'' else command req)
                  (if command req = ''/bin/jsh'' then filter (\<lambda>arg. arg \<noteq> ''--osc'') (args req) else args req)
                  (path_join (c_dir c) (case cwd req of None \<Rightarrow> ''/'' | Some d \<Rightarrow> d))
                  (exec_env (env st) (terminal req)))\<rparr>)"
  using assms
  by (auto simp: execute_def Let_def update_container_def getOrCreate_registered
      split: if_splits sum.splits prod.splits)

lemma execute_ls_connected:
  "connection w (Some ''w'') now initial = Inr st1 \<Longrightarrow>
   execute ''w'' \<lparr>command = ''ls'', args = [''-l''], cwd = None, terminal = None\<rparr> ''p1'' st1 = (r, st2) \<Longrightarrow>
   r = Json [(''processId'', JStr ''p1'')] \<and> open_ws st2 = {w} \<and>
   sent st2 = [(w, [(''type'', JStr ''connection-established''),
                                (''previewId'', JStr ''w''), (''timestamp'', JNum now)])] \<and>
   (\<exists>c. containers st2 ''w'' = Some c \<and> clients c = [w])"
  unfolding connection_w_initial
  by (auto simp: execute_def getOrCreate_def Let_def update_container_def initial_def
      path_join_def normalize_def mkdirSync_def path_errno_def segments_def)

lemma listeners_for_error_interactive:
  "listeners_for (start_child r previewId processId ''/bin/bash'' as wd e) (Ev_error code) = []"
  by (simp add: listeners_for_def start_child_def output_listeners_def)

lemma listeners_for_exit_interactive:
  "listeners_for (start_child r previewId processId ''/bin/bash'' as wd e) (Ev_exit code) =
     [Completed_exit r previewId processId]"
  by (simp add: listeners_for_def start_child_def output_listeners_def)

lemma listeners_for_done_exec:
  "cmd \<noteq> ''/bin/bash'' \<Longrightarrow>
   listeners_for (start_child r previewId processId cmd as wd e) (Ev_done error out err) =
     [Completed_exec r previewId processId]"
  by (simp add: listeners_for_def start_child_def output_listeners_def)

lemma listeners_for_error_exec:
  "cmd \<noteq> ''/bin/bash'' \<Longrightarrow>
   listeners_for (start_child r previewId processId cmd as wd e) (Ev_error code) =
     [Completed_exec r previewId processId]"
  by (simp add: listeners_for_def start_child_def output_listeners_def)

lemma execute_bash_connected:
  "connection w (Some ''w'') now initial = Inr st1 \<Longrightarrow>
   execute ''w'' \<lparr>command = ''/bin/bash'', args = [], cwd = None, terminal = None\<rparr> ''p1'' st1 = (r, st2) \<Longrightarrow>
   r = Json [(''processId'', JStr ''p1'')] \<and> open_ws st2 = {w} \<and>
   sent st2 = [(w, [(''type'', JStr ''connection-established''),
                                (''previewId'', JStr ''w''), (''timestamp'', JNum now)])] \<and>
   (\<exists>c. containers st2 ''w'' = Some c \<and> clients c = [w])"
  unfolding connection_w_initial
  by (auto simp: execute_def getOrCreate_def Let_def update_container_def initial_def
      path_join_def normalize_def mkdirSync_def path_errno_def segments_def)

lemma ch_env_start_child: "ch_env (start_child r previewId processId cmd as wd e) = e"
  by (simp add: start_child_def)

lemma message_resize_bash:
  assumes "connection w (Some ''w'') now initial = Inr st1"
    and "execute ''w'' \<lparr>command = ''/bin/bash'', args = [], cwd = None, terminal = None\<rparr> ''p1'' st1 = (r, st2)"
  shows "message w ''w'' (Some (JObj [(''type'', JStr ''terminal-resize''), (''processId'', JStr ''p1''),
                                  (''cols'', JNum 200), (''rows'', JNum 50)])) t st2
         = resize (JNum 200) (JNum 50) st2"
  using assms unfolding connection_w_initial
  by (auto simp: execute_def getOrCreate_def Let_def update_container_def initial_def
      path_join_def normalize_def mkdirSync_def path_errno_def segments_def message_def terminal_resize_def
      falsy_def start_child_def)

lemma js_toString_200: "js_toString (JNum 200) = Some ''200''"
  by (simp add: show_int_def show_nat.simps digit_char_def)

lemma js_toString_50: "js_toString (JNum 50) = Some ''50''"
  by (simp add: show_int_def show_nat.simps digit_char_def)

lemma execute_v_after_bash:
  assumes "connection w (Some ''w'') now initial = Inr st1"
    and "execute ''w'' \<lparr>command = ''/bin/bash'', args = [], cwd = None, terminal = None\<rparr> ''p1'' st1 = (r, st2)"
    and "execute ''v'' \<lparr>command = ''ls'', args = [], cwd = None, terminal = None\<rparr> ''p2'' (st2\<lparr>env := e\<rparr>) = (r', st3)"
  shows "r' = Json [(''processId'', JStr ''p2'')]"
  using assms unfolding connection_w_initial
  by (auto simp: execute_def getOrCreate_def createContainer_def Let_def update_container_def initial_def
      path_join_def normalize_def mkdirSync_def path_errno_def segments_def)

lemma execute_v_without_resize:
  assumes "connection w (Some ''w'') now initial = Inr st1"
    and "execute ''w'' \<lparr>command = ''/bin/bash'', args = [], cwd = None, terminal = None\<rparr> ''p1'' st1 = (r, st2)"
  shows "(case execute ''v'' \<lparr>command = ''ls'', args = [], cwd = None, terminal = None\<rparr> ''p2'' st2 of
            (r', st4) \<Rightarrow>
              (case containers st4 ''v'' of
                 None \<Rightarrow> False
               | Some c \<Rightarrow>
                   (case processes c ''p2'' of
                      None \<Rightarrow> False
                    | Some ch \<Rightarrow> ch_env ch ''COLUMNS'' = None \<and> ch_env ch ''LINES'' = None)))"
  using assms unfolding connection_w_initial
  by (auto simp: execute_def getOrCreate_def createContainer_def Let_def update_container_def initial_def
      path_join_def normalize_def mkdirSync_def path_errno_def segments_def start_child_def exec_env_def)

lemma fs_lookup_update_other:
  "k' \<noteq> k \<Longrightarrow> fs_lookup (AList.update k v fs) k' = fs_lookup fs k'"
  by (simp add: fs_lookup_def update_conv')

lemma fs_lookup_update_same:
  "k \<noteq> [] \<Longrightarrow> fs_lookup (AList.update k v fs) k = Some v"
  by (simp add: fs_lookup_def update_conv')

lemma walk_update:
  assumes "walk fs pre ss = Inr Dir" and "length s \<le> 255"
  shows "walk (AList.update (pre @ ss @ [s]) v fs) pre (ss @ [s]) = Inr v"
  using assms
proof (induction ss arbitrary: pre)
  case Nil
  then show ?case
    by (simp add: fs_lookup_update_other fs_lookup_update_same split: option.splits)
next
  case (Cons a ss)
  from Cons.prems(1) have d: "fs_lookup fs pre = Some Dir" and l: "\<not> 255 < length a"
    and w: "walk fs (pre @ [a]) ss = Inr Dir"
    by (auto split: option.splits node.splits if_splits)
  have "walk (AList.update ((pre @ [a]) @ ss @ [s]) v fs) (pre @ [a]) (ss @ [s]) = Inr v"
    using Cons.IH[OF w Cons.prems(2)] .
  then show ?case
    using d l by (simp add: fs_lookup_update_other)
qed

lemma writeFileSync_stat:
  assumes "writeFileSync fs p x = Inr fs2"
  shows "statSync fs2 p = Inr (File (utf8_encode x))"
proof -
  let ?segs = "segments p"
  from assms have pe: "path_errno p = None" and ne: "?segs \<noteq> []"
    and w: "walk fs [] (butlast ?segs) = Inr Dir" and l: "length (last ?segs) \<le> 255"
    and t: "\<not> trailing p" and fs2: "fs2 = AList.update ?segs (File (utf8_encode x)) fs"
    by (auto simp: writeFileSync_def split: if_splits option.splits sum.splits node.splits)
  have "walk (AList.update ([] @ butlast ?segs @ [last ?segs]) (File (utf8_encode x)) fs) []
          (butlast ?segs @ [last ?segs]) = Inr (File (utf8_encode x))"
    by (rule walk_update[OF w l])
  then have "walk fs2 [] ?segs = Inr (File (utf8_encode x))"
    using ne fs2 by simp
  then show ?thesis using pe t by (simp add: statSync_def)
qed

lemma broadcast_keeps:
  "containers (broadcastToContainer p m s) = containers s"
  "storage (broadcastToContainer p m s) = storage s"
  by (auto simp: broadcastToContainer_def split: option.splits)

lemma files_write_success:
  assumes "files_write previewId filePath (Some x) st = (Json body, st1)"
  shows "filePath \<noteq> [] \<and>
         (\<exists>c. containers st1 previewId = Some c \<and> files c filePath = Some x \<and>
              statSync (storage st1) (path_join (c_dir c) filePath) = Inr (File (utf8_encode x)))"
  using assms
  by (auto simp: files_write_def Let_def update_container_def broadcast_keeps
      getOrCreate_registered writeFileSync_stat
      split: if_splits sum.splits prod.splits)

lemma getOrCreate_w_fresh:
  "getOrCreate ''w'' initial =
     Inr (\<lparr>c_ref = 0, c_id = ''w'', c_dir = ''/data/w'', clients = [], files = Map.empty,
           processes = Map.empty\<rparr>,
          initial\<lparr>storage := [([''data''], Dir), ([''data'', ''w''], Dir)],
                  next_ref := Suc 0,
                  containers := [''w'' \<mapsto> \<lparr>c_ref = 0, c_id = ''w'', c_dir = ''/data/w'', clients = [],
                                          files = Map.empty, processes = Map.empty\<rparr>]\<rparr>)"
  by (simp add: getOrCreate_def createContainer_def initial_def path_join_def normalize_def
      mkdirSync_def path_errno_def segments_def Let_def)

lemma files_write_ab_initial:
  "files_write ''w'' ''a/b.txt'' (Some x) initial =
     (Json [(''success'', JBool True)],
      initial\<lparr>storage := [([''data''], Dir), ([''data'', ''w''], Dir), ([''data'', ''w'', ''a''], Dir),
                             ([''data'', ''w'', ''a'', ''b.txt''], File (utf8_encode x))],
              next_ref := Suc 0,
              containers := [''w'' \<mapsto> \<lparr>c_ref = 0, c_id = ''w'', c_dir = ''/data/w'', clients = [],
                                       files = [''a/b.txt'' \<mapsto> x], processes = Map.empty\<rparr>]\<rparr>)"
  apply (simp add: files_write_def Let_def getOrCreate_w_fresh)
  apply (simp add: initial_def path_join_def normalize_def path_dirname_def segments_def
      mkdirSync_def writeFileSync_def path_errno_def trailing_def fs_lookup_def
      update_container_def broadcastToContainer_def)
  done

lemma reattach_after_cleanup:
  assumes "files_write ''w'' ''a/b.txt'' (Some x) initial = (r1, st1)"
    and "connection w (Some ''w'') now (cleanup ''w'' st1) = Inr st2"
  shows "storage st2 = storage st1 \<and>
         (\<exists>c1 c2. containers st1 ''w'' = Some c1 \<and> containers st2 ''w'' = Some c2 \<and>
                  c_dir c2 = c_dir c1 \<and> files c2 ''a/b.txt'' = None)"
  using assms unfolding files_write_ab_initial
  by (auto simp: cleanup_def connection_def getOrCreate_def createContainer_def Let_def
      update_container_def ws_send_def initial_def path_join_def normalize_def segments_def
      mkdirSync_def path_errno_def split: sum.splits)

lemma reattach_after_cleanup_ok:
  assumes "files_write ''w'' ''a/b.txt'' (Some x) initial = (r1, st1)"
  shows "\<exists>st2. connection w (Some ''w'') now (cleanup ''w'' st1) = Inr st2"
  using assms unfolding files_write_ab_initial
  by (auto simp: cleanup_def connection_def getOrCreate_def createContainer_def Let_def
      update_container_def ws_send_def initial_def path_join_def normalize_def segments_def
      mkdirSync_def path_errno_def split: sum.splits)

lemma reread_after_reattach:
  assumes "files_write ''w'' ''a/b.txt'' (Some x) initial = (r1, st1)"
    and "connection w (Some ''w'') now (cleanup ''w'' st1) = Inr st2"
  shows "fst (files_read ''w'' ''a/b.txt'' st2) = Content (utf8_decode (utf8_encode x))"
  using assms unfolding files_write_ab_initial
  by (auto simp: cleanup_def connection_def getOrCreate_def createContainer_def Let_def
      update_container_def ws_send_def initial_def path_join_def normalize_def segments_def
      mkdirSync_def path_errno_def files_read_def existsSync_def statSync_def readFileSync_def
      fs_lookup_def trailing_def split: sum.splits)

lemma utf8_lone_surrogate: "utf8_decode (utf8_encode [0xD800]) = [0xFFFD]"
  by (simp add: utf8_encode_def utf8_of_scalar_def is_high_def is_low_def utf8_decode_def
      utf16_of_scalar_def utf8_dec.simps)

lemma rm_dir_after_write:
  assumes "files_write ''w'' ''a/b.txt'' (Some x) initial = (r1, st1)"
    and "files_rm ''w'' ''a'' True st1 = (r2, st2)"
  shows "r2 = Json [(''success'', JBool True)] \<and>
         storage st2 = [([''data''], Dir), ([''data'', ''w''], Dir)] \<and>
         (\<exists>c. containers st2 ''w'' = Some c \<and> c_dir c = ''/data/w'' \<and> files c ''a/b.txt'' = Some x)"
  using assms unfolding files_write_ab_initial
  by (auto simp: files_rm_def Let_def initial_def path_join_def normalize_def segments_def
      existsSync_def statSync_def path_errno_def fs_lookup_def trailing_def rmdirSync_def
      update_container_def broadcastToContainer_def)

lemma ab_missing:
  "\<not> existsSync [([''data''], Dir), ([''data'', ''w''], Dir)] (path_join ''/data/w'' ''a/b.txt'')"
  by (simp add: path_join_def normalize_def segments_def existsSync_def statSync_def
      path_errno_def fs_lookup_def)

section \<open>Workspace identifiers and the persistent root\<close>




section \<open>The idle sweep\<close>

text \<open>
  Claim C6, as the code has it. The callback of the clean-up timer tests the number of
  attached sockets only: a container that has at least one attached socket when a timer
  fires, for its own identifier or any other, stays in the registry unchanged.
\<close>

theorem cleanup_keeps_connected:
  assumes "containers st w = Some c" and "clients c \<noteq> []"
  shows "containers (cleanup previewId st) w = Some c"
  using assms by (auto simp: cleanup_def Let_def split: option.splits)

text \<open>Claim C6, witness: one socket attached to workspace w, and the timer of w fires.\<close>

theorem cleanup_keeps_connected_witness:
  "(case connection 1 (Some ''w'') 0 initial of
      Inl e \<Rightarrow> False
    | Inr st \<Rightarrow>
        (case containers st ''w'' of
           None \<Rightarrow> False
         | Some c \<Rightarrow> clients c = [1] \<and> containers (cleanup ''w'' st) ''w'' = Some c))"
proof -
  obtain st where s: "connection 1 (Some ''w'') 0 initial = Inr st"
    by (simp add: connection_def Let_def getOrCreate_w_initial)
  obtain c where c: "containers st ''w'' = Some c" and cl: "clients c = [1]"
    using s by (auto simp: connection_def Let_def getOrCreate_w_initial update_container_def
        ws_send_def set_add_def)
  have "clients c \<noteq> []" using cl by simp
  from cleanup_keeps_connected[OF c this] show ?thesis using s c cl by simp
qed

text \<open>
  Claim C6 as stated fails: a command is started in workspace w with no socket attached,
  so the container has no client and one running process; when the timer fires, the
  container is removed from the registry all the same.
\<close>

theorem cleanup_removes_session_with_process_counterexample:
  "(case execute ''w'' \<lparr>command = ''sleep'', args = [''600''], cwd = None, terminal = None\<rparr>
           ''p1'' initial of
      (r, st) \<Rightarrow>
        (case containers st ''w'' of
           None \<Rightarrow> False
         | Some c \<Rightarrow> clients c = [] \<and> processes c ''p1'' \<noteq> None
                      \<and> containers (cleanup ''w'' st) ''w'' = None))"
  using getOrCreate_w_initial[of "{}"]
  by (simp add: execute_def Let_def update_container_def cleanup_def initial_def
      path_join_def normalize_def mkdirSync_def path_errno_def segments_def)

text \<open>
  Claim C7. When the timer of a session fires and the session has no attached socket, its
  entry leaves the registry, so that \<^verbatim>\<open>containers.get\<close> finds nothing under the identifier,
  every other entry stays, and the storage is what it was: nothing is deleted there.
\<close>

theorem cleanup_removes_idle_session:
  assumes "containers st previewId = Some c" and "clients c = []"
  shows "containers (cleanup previewId st) = (containers st)(previewId := None) \<and>
         containers (cleanup previewId st) previewId = None \<and>
         storage (cleanup previewId st) = storage st"
  using assms by (simp add: cleanup_def Let_def)

text \<open>
  Claim C7, witness: a socket attaches to workspace w and closes, which arms the timer;
  when it fires the entry is gone and the directory /data/w is still on storage.
\<close>

theorem cleanup_removes_idle_session_witness:
  "(case connection 1 (Some ''w'') 0 initial of
      Inl e \<Rightarrow> False
    | Inr st1 \<Rightarrow>
        timers (close 1 ''w'' st1) = [''w''] \<and>
        (case containers (close 1 ''w'' st1) ''w'' of
           None \<Rightarrow> False
         | Some c \<Rightarrow>
             clients c = [] \<and>
             containers (cleanup ''w'' (close 1 ''w'' st1)) ''w'' = None \<and>
             storage (cleanup ''w'' (close 1 ''w'' st1)) = [([''data''], Dir), ([''data'', ''w''], Dir)]))"
proof -
  obtain st1 where s: "connection 1 (Some ''w'') 0 initial = Inr st1"
    by (simp add: connection_w_initial)
  let ?st2 = "close 1 ''w'' st1"
  have t: "timers ?st2 = [''w'']"
    and fs: "storage ?st2 = [([''data''], Dir), ([''data'', ''w''], Dir)]"
    using s[unfolded connection_w_initial]
    by (auto simp: close_def ws_close_def Let_def initial_def)
  obtain c where c: "containers ?st2 ''w'' = Some c" and cl: "clients c = []"
    using s[unfolded connection_w_initial]
    by (auto simp: close_def ws_close_def Let_def initial_def)
  from cleanup_removes_idle_session[OF c cl] show ?thesis using s t fs c cl by simp
qed

section \<open>Inbound messages\<close>

text \<open>
  Claim C5, what the code does on the inputs where it departs from the claim: a frame that
  \<^verbatim>\<open>JSON.parse\<close> rejects, and the frame \<^verbatim>\<open>null\<close> (reading its type throws), reach the
  \<^verbatim>\<open>catch\<close> of the handler, which only logs. No frame is sent to any socket and the state
  is unchanged.
\<close>

theorem message_unparseable_silent:
  "message w previewId None now st = st \<and> message w previewId (Some JNull) now st = st"
  by (simp add: message_def)

text \<open>
  The sibling path: a parsed value whose type is missing or falsy is answered with one
  error frame, sent to the socket the message came from. No message closes a socket.
\<close>

lemma message_missing_type:
  assumes "get_prop data ''type'' = Inr ty" and "falsy ty"
  shows "message w previewId (Some data) now st =
           st\<lparr>sent := sent st @ [(w, [(''type'', JStr ''error''),
                                       (''error'', JStr ''Missing type field in message''),
                                       (''timestamp'', JNum now)])]\<rparr>"
  using assms by (simp add: message_def ws_send_def)

lemma message_keeps_open: "open_ws (message w previewId parsed now st) = open_ws st"
  by (auto simp: message_def ws_send_def broadcastToContainer_def terminal_input_def
      terminal_resize_def resize_def split: option.splits sum.splits json.splits prod.splits)

section \<open>Acknowledging a connection\<close>

text \<open>
  Claim C9, what \<^verbatim>\<open>src/server.js\<close> does: the acknowledgement sent to a socket that attached
  under a non-empty identifier has the three fields type, previewId and timestamp, and
  nothing else; the number of attached sockets is not in it.
\<close>

theorem connection_ack_without_count:
  assumes "connection w (Some previewId) now st = Inr st'" and "previewId \<noteq> []"
  shows "sent st' = sent st @ [(w, [(''type'', JStr ''connection-established''),
                                     (''previewId'', JStr previewId),
                                     (''timestamp'', JNum now)])]"
  using assms
  by (auto simp: connection_def Let_def ws_send_def update_container_def
      dest!: getOrCreate_registered(3) split: sum.splits option.splits if_splits)

text \<open>
  Claim C9, the input where the code departs from the claim: the first socket attaching to
  workspace w on the fresh server receives a frame with no \<^verbatim>\<open>clientCount\<close>.
\<close>

theorem connection_ack_without_count_witness:
  "(case connection 1 (Some ''w'') 0 initial of
      Inl e \<Rightarrow> False
    | Inr st' \<Rightarrow>
        ''w'' \<noteq> [] \<and>
        sent st' = [(1, [(''type'', JStr ''connection-established''),
                         (''previewId'', JStr ''w''), (''timestamp'', JNum 0)])] \<and>
        map_of (snd (last (sent st'))) ''clientCount'' = None)"
proof -
  obtain st' where s: "connection 1 (Some ''w'') 0 initial = Inr st'"
    by (simp add: connection_w_initial)
  have n: "''w'' \<noteq> []" by simp
  from connection_ack_without_count[OF s n] show ?thesis
    using s by (simp add: initial_def)
qed

text \<open>
  The sibling: the handler of the other revision sends the count, and the count is the
  number of sockets attached once the new one is in the set.
\<close>

lemma connection_part_000_ack_count:
  assumes "getOrCreate previewId (st\<lparr>open_ws := insert w (open_ws st)\<rparr>) = Inr (c, st1)"
    and "previewId \<noteq> []"
  shows "sent (connection_part_000 w (Some previewId) processId now st) =
           sent st @ [(w, [(''type'', JStr ''connection-established''),
                           (''previewId'', JStr previewId),
                           (''processId'', (case processId of None \<Rightarrow> JNull | Some k \<Rightarrow> JStr k)),
                           (''timestamp'', JNum now),
                           (''clientCount'', JNum (of_nat (length (set_add w (clients c)))))])] \<and>
         map_option clients (containers (connection_part_000 w (Some previewId) processId now st) previewId)
           = Some (set_add w (clients c))"
  using assms getOrCreate_registered[OF assms(1)]
  by (simp add: connection_part_000_def Let_def ws_send_def update_container_def)

section \<open>Output and completion of child processes\<close>

text \<open>
  Claim C3, what the code does: every child that \<^verbatim>\<open>execute\<close> starts carries two listeners
  per output stream that broadcast, the one of its branch and the one attached after the
  child is stored. A chunk of standard output or of standard error therefore goes through
  \<^verbatim>\<open>broadcastToContainer\<close> twice, as two equal \<^verbatim>\<open>process-output\<close> events, not once.
\<close>

theorem output_chunk_broadcast_twice:
  assumes "execute previewId req processId st = (Json body, st')"
  shows "\<exists>c ch. containers st' previewId = Some c \<and> processes c processId = Some ch \<and>
           emit ch (Ev_stdout chunk) s =
             Inr (broadcastToContainer previewId (process_output previewId processId chunk ''stdout'')
                   (broadcastToContainer previewId (process_output previewId processId chunk ''stdout'') s)) \<and>
           emit ch (Ev_stderr chunk) s =
             Inr (broadcastToContainer previewId (process_output previewId processId chunk ''stderr'')
                   (broadcastToContainer previewId (process_output previewId processId chunk ''stderr'') s))"
proof -
  from execute_registers[OF assms] obtain c where
    c: "containers st' previewId =
          Some (c\<lparr>processes := (processes c)(processId \<mapsto>
                  start_child (c_ref c) previewId processId
                  (if command req = ''/bin/jsh'' then ''/bin/bash'' else command req)
                  (if command req = ''/bin/jsh'' then filter (\<lambda>arg. arg \<noteq> ''--osc'') (args req) else args req)
                  (path_join (c_dir c) (case cwd req of None \<Rightarrow> ''/'' | Some d \<Rightarrow> d))
                  (exec_env (env st) (terminal req)))\<rparr>)"
    by blast
  show ?thesis
    using c by (simp add: emit_def listeners_for_stdout listeners_for_stderr)
qed

text \<open>
  Claim C3, the input where the code departs from the claim: one socket is attached to
  workspace w, the command \<^verbatim>\<open>ls -l\<close> is executed there, and its child writes the chunk
  \<^verbatim>\<open>hi\<close>; the socket is sent the same \<^verbatim>\<open>process-output\<close> frame two times.
\<close>

theorem output_chunk_broadcast_twice_witness:
  "(case connection 1 (Some ''w'') 0 initial of
      Inl e \<Rightarrow> False
    | Inr st1 \<Rightarrow>
        (case execute ''w'' \<lparr>command = ''ls'', args = [''-l''], cwd = None, terminal = None\<rparr> ''p1'' st1 of
           (r, st2) \<Rightarrow>
             r = Json [(''processId'', JStr ''p1'')] \<and>
             (case containers st2 ''w'' of
                None \<Rightarrow> False
              | Some c \<Rightarrow>
                  (case processes c ''p1'' of
                     None \<Rightarrow> False
                   | Some ch \<Rightarrow>
                       (case emit ch (Ev_stdout ''hi'') st2 of
                          Inl e \<Rightarrow> False
                        | Inr st3 \<Rightarrow>
                            sent st3 = sent st2 @
                              [(1, process_output ''w'' ''p1'' ''hi'' ''stdout''),
                               (1, process_output ''w'' ''p1'' ''hi'' ''stdout'')])))))"
proof -
  obtain st1 where s1: "connection 1 (Some ''w'') 0 initial = Inr st1"
    by (simp add: connection_w_initial)
  obtain r st2 where s2:
    "execute ''w'' \<lparr>command = ''ls'', args = [''-l''], cwd = None, terminal = None\<rparr> ''p1'' st1 = (r, st2)"
    by (cases "execute ''w'' \<lparr>command = ''ls'', args = [''-l''], cwd = None, terminal = None\<rparr> ''p1'' st1")
  from execute_ls_connected[OF s1 s2] obtain c0 where
    r: "r = Json [(''processId'', JStr ''p1'')]" and o: "open_ws st2 = {1}"
    and c0: "containers st2 ''w'' = Some c0" "clients c0 = [1]"
    by auto
  from output_chunk_broadcast_twice[OF s2[unfolded r], of "''hi''" st2]
  obtain c ch where c: "containers st2 ''w'' = Some c" and ch: "processes c ''p1'' = Some ch"
    and e: "emit ch (Ev_stdout ''hi'') st2 =
             Inr (broadcastToContainer ''w'' (process_output ''w'' ''p1'' ''hi'' ''stdout'')
                   (broadcastToContainer ''w'' (process_output ''w'' ''p1'' ''hi'' ''stdout'') st2))"
    by blast
  have "c = c0" using c c0 by simp
  then show ?thesis
    using s1 s2 r c ch e c0 o by (simp add: broadcastToContainer_def)
qed

text \<open>
  Claim C4, what the code does for an interactive shell that could not be started: the
  child of \<^verbatim>\<open>spawn\<close> has an exit handler but no listener for the \<^verbatim>\<open>error\<close> event that reports
  the failed start, so the event is an exception nothing catches. No completion event is
  broadcast and the handle stays in the processes of the container.
\<close>

theorem interactive_spawn_failure_unhandled:
  assumes "execute previewId req processId st = (Json body, st')"
    and "command req = ''/bin/bash'' \<or> command req = ''/bin/jsh''"
  shows "\<exists>c ch. containers st' previewId = Some c \<and> processes c processId = Some ch \<and>
           emit ch (Ev_error code) s = Inl (UnhandledError code)"
proof -
  from execute_registers[OF assms(1)] obtain c where
    c: "containers st' previewId =
          Some (c\<lparr>processes := (processes c)(processId \<mapsto>
                  start_child (c_ref c) previewId processId
                  (if command req = ''/bin/jsh'' then ''/bin/bash'' else command req)
                  (if command req = ''/bin/jsh'' then filter (\<lambda>arg. arg \<noteq> ''--osc'') (args req) else args req)
                  (path_join (c_dir c) (case cwd req of None \<Rightarrow> ''/'' | Some d \<Rightarrow> d))
                  (exec_env (env st) (terminal req)))\<rparr>)"
    by blast
  have cmd: "(if command req = ''/bin/jsh'' then ''/bin/bash'' else command req) = ''/bin/bash''"
    using assms(2) by auto
  show ?thesis
    using c unfolding cmd by (simp add: emit_def listeners_for_error_interactive)
qed

text \<open>
  Claim C4, the input where the code departs from the claim: \<^verbatim>\<open>/bin/bash\<close> is executed in
  workspace w on a host that has no such file, and the runtime reports ENOENT.
\<close>

theorem interactive_spawn_failure_unhandled_witness:
  "(case connection 1 (Some ''w'') 0 initial of
      Inl e \<Rightarrow> False
    | Inr st1 \<Rightarrow>
        (case execute ''w'' \<lparr>command = ''/bin/bash'', args = [], cwd = None, terminal = None\<rparr> ''p1'' st1 of
           (r, st2) \<Rightarrow>
             r = Json [(''processId'', JStr ''p1'')] \<and>
             (case containers st2 ''w'' of
                None \<Rightarrow> False
              | Some c \<Rightarrow>
                  (case processes c ''p1'' of
                     None \<Rightarrow> False
                   | Some ch \<Rightarrow> emit ch (Ev_error ''ENOENT'') st2 = Inl (UnhandledError ''ENOENT'')))))"
proof -
  obtain st1 where s1: "connection 1 (Some ''w'') 0 initial = Inr st1"
    by (simp add: connection_w_initial)
  obtain r st2 where s2:
    "execute ''w'' \<lparr>command = ''/bin/bash'', args = [], cwd = None, terminal = None\<rparr> ''p1'' st1 = (r, st2)"
    by (cases "execute ''w'' \<lparr>command = ''/bin/bash'', args = [], cwd = None, terminal = None\<rparr> ''p1'' st1")
  from execute_bash_connected[OF s1 s2]
  have r: "r = Json [(''processId'', JStr ''p1'')]" by simp
  have "command \<lparr>command = ''/bin/bash'', args = [], cwd = None, terminal = None\<rparr> = ''/bin/bash'' \<or>
        command \<lparr>command = ''/bin/bash'', args = [], cwd = None, terminal = None\<rparr> = ''/bin/jsh''"
    by simp
  from interactive_spawn_failure_unhandled[OF s2[unfolded r] this, of "''ENOENT''" st2]
  show ?thesis using s1 s2 r by auto
qed

text \<open>
  The paths of claim C4 that hold: on exit of an interactive child, and on completion or
  failed start of a child of \<^verbatim>\<open>exec\<close>, the handle is removed from the processes of the
  container the closure captured and a \<^verbatim>\<open>process-completed\<close> event with the process
  identifier and the exit code is broadcast.
\<close>

lemma interactive_exit_completes:
  "emit (start_child r previewId processId ''/bin/bash'' as wd e) (Ev_exit code) s =
     Inr (broadcastToContainer previewId
            (process_completed previewId processId (JNum (case code of None \<Rightarrow> 0 | Some n \<Rightarrow> n)) [] [])
            (forget_process r previewId processId s))"
  by (simp add: emit_def listeners_for_exit_interactive)

lemma exec_done_completes:
  "cmd \<noteq> ''/bin/bash'' \<Longrightarrow>
   emit (start_child r previewId processId cmd as wd e) (Ev_done error out err) s =
     Inr (broadcastToContainer previewId
            (process_completed previewId processId (case error of None \<Rightarrow> JNum 0 | Some code \<Rightarrow> code) out err)
            (forget_process r previewId processId s))"
  by (simp add: emit_def listeners_for_done_exec)

lemma exec_error_completes:
  "cmd \<noteq> ''/bin/bash'' \<Longrightarrow>
   emit (start_child r previewId processId cmd as wd e) (Ev_error code) s =
     Inr (broadcastToContainer previewId
            (process_completed previewId processId (JStr code) [] [])
            (forget_process r previewId processId s))"
  by (simp add: emit_def listeners_for_error_exec)

lemma forget_process_removes:
  "containers s previewId = Some c \<Longrightarrow> c_ref c = r \<Longrightarrow>
   containers (forget_process r previewId processId s) previewId =
     Some (c\<lparr>processes := (processes c)(processId := None)\<rparr>)"
  by (simp add: forget_process_def update_container_def)

section \<open>Isolation of workspaces\<close>

text \<open>
  Claim C2, what the code does: \<^verbatim>\<open>resize\<close> assigns the geometry to \<^verbatim>\<open>process.env\<close> of the
  server, and every later child inherits a copy of that environment. After a resize with
  printable numbers, a command executed without terminal options under any workspace
  gets the COLUMNS and LINES of the resize.
\<close>

theorem resize_reaches_other_workspace:
  assumes "js_toString cols = Some c" and "js_toString rows = Some r"
    and "terminal req = None"
    and "execute w2 req processId (resize cols rows st) = (Json body, st')"
  shows "\<exists>cont ch. containers st' w2 = Some cont \<and> processes cont processId = Some ch \<and>
           ch_env ch ''COLUMNS'' = Some c \<and> ch_env ch ''LINES'' = Some r"
proof -
  from execute_registers[OF assms(4)] obtain c0 where
    c: "containers st' w2 =
          Some (c0\<lparr>processes := (processes c0)(processId \<mapsto>
                  start_child (c_ref c0) w2 processId
                  (if command req = ''/bin/jsh'' then ''/bin/bash'' else command req)
                  (if command req = ''/bin/jsh'' then filter (\<lambda>arg. arg \<noteq> ''--osc'') (args req) else args req)
                  (path_join (c_dir c0) (case cwd req of None \<Rightarrow> ''/'' | Some d \<Rightarrow> d))
                  (exec_env (env (resize cols rows st)) (terminal req)))\<rparr>)"
    by blast
  have "env (resize cols rows st) = (env st)(''COLUMNS'' \<mapsto> c, ''LINES'' \<mapsto> r)"
    using assms(1,2) by (simp add: resize_def)
  then show ?thesis
    using c assms(3) by (simp add: ch_env_start_child exec_env_def)
qed

text \<open>
  Claim C2, the input where the code departs from the claim: a shell runs in workspace w,
  its socket sends \<^verbatim>\<open>terminal-resize\<close> with 200 columns and 50 rows, and then \<^verbatim>\<open>ls\<close> is
  executed in workspace v. The child of v has COLUMNS 200 and LINES 50 in its
  environment; without the resize in w it has neither.
\<close>

theorem resize_reaches_other_workspace_witness:
  "(case connection 1 (Some ''w'') 0 initial of
      Inl e \<Rightarrow> False
    | Inr st1 \<Rightarrow>
        (case execute ''w'' \<lparr>command = ''/bin/bash'', args = [], cwd = None, terminal = None\<rparr> ''p1'' st1 of
           (r, st2) \<Rightarrow>
             (case execute ''v'' \<lparr>command = ''ls'', args = [], cwd = None, terminal = None\<rparr> ''p2''
                     (message 1 ''w''
                        (Some (JObj [(''type'', JStr ''terminal-resize''), (''processId'', JStr ''p1''),
                                     (''cols'', JNum 200), (''rows'', JNum 50)])) 0 st2) of
                (r', st4) \<Rightarrow>
                  (case containers st4 ''v'' of
                     None \<Rightarrow> False
                   | Some c \<Rightarrow>
                       (case processes c ''p2'' of
                          None \<Rightarrow> False
                        | Some ch \<Rightarrow> ch_env ch ''COLUMNS'' = Some ''200'' \<and> ch_env ch ''LINES'' = Some ''50''))) \<and>
             (case execute ''v'' \<lparr>command = ''ls'', args = [], cwd = None, terminal = None\<rparr> ''p2'' st2 of
                (r', st4) \<Rightarrow>
                  (case containers st4 ''v'' of
                     None \<Rightarrow> False
                   | Some c \<Rightarrow>
                       (case processes c ''p2'' of
                          None \<Rightarrow> False
                        | Some ch \<Rightarrow> ch_env ch ''COLUMNS'' = None \<and> ch_env ch ''LINES'' = None)))))"
proof -
  let ?bash = "\<lparr>command = ''/bin/bash'', args = [], cwd = None, terminal = None\<rparr>"
  let ?ls = "\<lparr>command = ''ls'', args = [], cwd = None, terminal = None\<rparr>"
  obtain st1 where s1: "connection 1 (Some ''w'') 0 initial = Inr st1"
    by (simp add: connection_w_initial)
  obtain r st2 where s2: "execute ''w'' ?bash ''p1'' st1 = (r, st2)"
    by (cases "execute ''w'' ?bash ''p1'' st1")
  have m: "message 1 ''w''
             (Some (JObj [(''type'', JStr ''terminal-resize''), (''processId'', JStr ''p1''),
                          (''cols'', JNum 200), (''rows'', JNum 50)])) 0 st2
           = resize (JNum 200) (JNum 50) st2"
    by (rule message_resize_bash[OF s1 s2])
  have rs: "resize (JNum 200) (JNum 50) st2 = st2\<lparr>env := (env st2)(''COLUMNS'' \<mapsto> ''200'', ''LINES'' \<mapsto> ''50'')\<rparr>"
    by (simp add: resize_def js_toString_200 js_toString_50 del: js_toString.simps)
  obtain r' st4 where s4: "execute ''v'' ?ls ''p2'' (resize (JNum 200) (JNum 50) st2) = (r', st4)"
    by (cases "execute ''v'' ?ls ''p2'' (resize (JNum 200) (JNum 50) st2)")
  have r': "r' = Json [(''processId'', JStr ''p2'')]"
    using execute_v_after_bash[OF s1 s2 s4[unfolded rs]] .
  have t: "terminal ?ls = None" by simp
  from resize_reaches_other_workspace[OF js_toString_200 js_toString_50 t s4[unfolded r']]
  obtain cont ch where "containers st4 ''v'' = Some cont" "processes cont ''p2'' = Some ch"
    "ch_env ch ''COLUMNS'' = Some ''200''" "ch_env ch ''LINES'' = Some ''50''"
    by blast
  then show ?thesis
    using s1 s2 m s4 execute_v_without_resize[OF s1 s2] by simp
qed

text \<open>
  What does hold between workspaces: no file operation, execution, message, close or
  timer of one identifier changes the registry entry of another, and a broadcast reaches
  only sockets in the set of clients of the container it names.
\<close>

lemma getOrCreate_other:
  "getOrCreate w1 st = Inr (c, st1) \<Longrightarrow> w2 \<noteq> w1 \<Longrightarrow> containers st1 w2 = containers st w2"
  by (auto simp: getOrCreate_def createContainer_def Let_def split: option.splits sum.splits)

lemma getOrCreate_failed:
  "getOrCreate w1 st = Inl (e, st1) \<Longrightarrow> containers st1 = containers st"
  by (auto simp: getOrCreate_def createContainer_def Let_def split: option.splits sum.splits)

lemma update_container_other:
  "w2 \<noteq> w1 \<Longrightarrow> containers (update_container r w1 f st) w2 = containers st w2"
  by (simp add: update_container_def split: option.splits)

lemma files_write_other:
  "w2 \<noteq> w1 \<Longrightarrow> containers (snd (files_write w1 p x st)) w2 = containers st w2"
  by (auto simp: files_write_def Let_def broadcast_keeps update_container_other getOrCreate_other
      getOrCreate_failed split: option.splits sum.splits prod.splits)

lemma files_rm_other:
  "w2 \<noteq> w1 \<Longrightarrow> containers (snd (files_rm w1 p rec st)) w2 = containers st w2"
  by (simp add: files_rm_def Let_def broadcast_keeps update_container_other
      split: option.splits sum.splits node.splits)

lemma files_read_other:
  "w2 \<noteq> w1 \<Longrightarrow> containers (snd (files_read w1 p st)) w2 = containers st w2"
  by (simp add: files_read_def Let_def update_container_other split: option.splits sum.splits)

lemma execute_other:
  "w2 \<noteq> w1 \<Longrightarrow> containers (snd (execute w1 req k st)) w2 = containers st w2"
  by (auto simp: execute_def Let_def update_container_other getOrCreate_other
      getOrCreate_failed split: sum.splits prod.splits)

lemma close_other:
  "w2 \<noteq> w1 \<Longrightarrow> containers (close w w1 st) w2 = containers st w2"
  by (simp add: close_def Let_def ws_close_def split: option.splits)

lemma cleanup_other:
  "w2 \<noteq> w1 \<Longrightarrow> containers (cleanup w1 st) w2 = containers st w2"
  by (simp add: cleanup_def Let_def split: option.splits)

lemma terminal_input_registry: "containers (terminal_input c data st) = containers st"
  by (simp add: terminal_input_def split: sum.splits option.splits json.splits prod.splits)

lemma resize_registry: "containers (resize cols rows st) = containers st"
  by (simp add: resize_def split: option.splits)

lemma terminal_resize_registry: "containers (terminal_resize c data st) = containers st"
  by (simp add: terminal_resize_def resize_registry split: sum.splits option.splits json.splits prod.splits)

lemma message_registry: "containers (message w w1 parsed now st) = containers st"
  by (simp add: message_def ws_send_def broadcast_keeps terminal_input_registry
      terminal_resize_registry split: option.splits sum.splits)

lemma broadcast_recipients:
  assumes "containers st w1 = Some c"
  shows "\<exists>ms. sent (broadcastToContainer w1 m st) = sent st @ ms \<and> fst ` set ms \<subseteq> set (clients c)"
  using assms by (auto simp: broadcastToContainer_def)

section \<open>The file cache and the storage\<close>

text \<open>
  Claim C8, as the code has it. After a write of a string \<open>x\<close> to a path has succeeded, a
  read of the same path returns exactly \<open>x\<close> from the cache whatever the storage holds by
  then, and leaves the state as it is. A read through any container of the workspace that
  has the same directory and no cache entry for the path, on the storage the write left,
  returns what decoding gives for the UTF-8 bytes of \<open>x\<close>, puts that into the cache and
  leaves the storage as it was; this is exactly \<open>x\<close> whenever \<open>x\<close> is well formed, that
  is, has no unpaired surrogate.
\<close>

theorem write_read_roundtrip:
  assumes "files_write previewId filePath (Some x) st = (Json body, st1)"
    and "containers st1 previewId = Some c1"
    and "containers st2 previewId = Some c2"
    and "c_dir c2 = c_dir c1"
    and "files c2 filePath = None"
    and "storage st2 = storage st1"
  shows "files_read previewId filePath (st1\<lparr>storage := fs'\<rparr>)
           = (Content x, st1\<lparr>storage := fs'\<rparr>) \<and>
         fst (files_read previewId filePath st2) = Content (utf8_decode (utf8_encode x)) \<and>
         (well_formed x \<longrightarrow> fst (files_read previewId filePath st2) = Content x) \<and>
         storage (snd (files_read previewId filePath st2)) = storage st1 \<and>
         map_option (\<lambda>c. files c filePath) (containers (snd (files_read previewId filePath st2)) previewId)
           = Some (Some (utf8_decode (utf8_encode x)))"
proof -
  from files_write_success[OF assms(1)] assms(2)
  have ne: "filePath \<noteq> []" and hit: "files c1 filePath = Some x"
    and onfs: "statSync (storage st1) (path_join (c_dir c1) filePath) = Inr (File (utf8_encode x))"
    by auto
  have a: "files_read previewId filePath (st1\<lparr>storage := fs'\<rparr>)
           = (Content x, st1\<lparr>storage := fs'\<rparr>)"
    using ne hit assms(2) by (simp add: files_read_def)
  have b: "files_read previewId filePath st2 =
             (Content (utf8_decode (utf8_encode x)),
              update_container (c_ref c2) previewId
                (\<lambda>c. c\<lparr>files := (files c)(filePath \<mapsto> utf8_decode (utf8_encode x))\<rparr>) st2)"
    using ne onfs assms(3-6)
    by (simp add: files_read_def Let_def existsSync_def readFileSync_def)
  show ?thesis
    using a b assms(3,6) by (simp add: update_container_def utf8_roundtrip)
qed

text \<open>
  Claim C8, witness: the four characters \<^verbatim>\<open>x\<close>, the euro sign and one emoji (a surrogate
  pair) are written to \<^verbatim>\<open>a/b.txt\<close> in workspace w on the fresh server. The read returns
  them even with the storage emptied. Then the timer removes the session, a socket
  attaches and creates it again with an empty cache, and the read returns them from
  storage.
\<close>

theorem write_read_roundtrip_witness:
  "well_formed [0x78, 0x20AC, 0xD83D, 0xDE00] \<and>
   (case files_write ''w'' ''a/b.txt'' (Some [0x78, 0x20AC, 0xD83D, 0xDE00]) initial of
      (r1, st1) \<Rightarrow>
        r1 = Json [(''success'', JBool True)] \<and>
        fst (files_read ''w'' ''a/b.txt'' (st1\<lparr>storage := []\<rparr>))
          = Content [0x78, 0x20AC, 0xD83D, 0xDE00] \<and>
        (case connection 1 (Some ''w'') 0 (cleanup ''w'' st1) of
           Inl e \<Rightarrow> False
         | Inr st2 \<Rightarrow>
             (case containers st2 ''w'' of
                None \<Rightarrow> False
              | Some c2 \<Rightarrow> files c2 ''a/b.txt'' = None) \<and>
             fst (files_read ''w'' ''a/b.txt'' st2) = Content [0x78, 0x20AC, 0xD83D, 0xDE00]))"
proof -
  let ?x = "[0x78, 0x20AC, 0xD83D, 0xDE00] :: utf16"
  have wf: "well_formed ?x" by (simp add: is_high_def is_low_def)
  obtain r1 st1 where w: "files_write ''w'' ''a/b.txt'' (Some ?x) initial = (r1, st1)"
    by (cases "files_write ''w'' ''a/b.txt'' (Some ?x) initial")
  have r1: "r1 = Json [(''success'', JBool True)]"
    using w unfolding files_write_ab_initial by simp
  obtain st2 where s2: "connection 1 (Some ''w'') 0 (cleanup ''w'' st1) = Inr st2"
    using reattach_after_cleanup_ok[OF w] by blast
  from reattach_after_cleanup[OF w s2] obtain c1 c2 where
    fs: "storage st2 = storage st1" and c1: "containers st1 ''w'' = Some c1"
    and c2: "containers st2 ''w'' = Some c2" and d: "c_dir c2 = c_dir c1"
    and miss: "files c2 ''a/b.txt'' = None"
    by blast
  note t = write_read_roundtrip[OF w[unfolded r1] c1 c2 d miss fs, of "[]"]
  from t have hit: "files_read ''w'' ''a/b.txt'' (st1\<lparr>storage := []\<rparr>)
                      = (Content ?x, st1\<lparr>storage := []\<rparr>)"
    by blast
  from t wf have reread: "fst (files_read ''w'' ''a/b.txt'' st2) = Content ?x"
    by blast
  have "fst (files_read ''w'' ''a/b.txt'' (st1\<lparr>storage := []\<rparr>)) = Content ?x"
    by (simp only: hit fst_conv)
  then show ?thesis using wf w r1 s2 c2 miss reread by simp
qed

text \<open>
  Claim C8 as stated fails: the content is the single code unit D800, a high surrogate
  with no partner. The write succeeds and the cache holds D800, but the file holds the
  bytes of U+FFFD; once the session was removed and created again, the read from storage
  returns FFFD, not what was written.
\<close>

theorem write_read_lone_surrogate_counterexample:
  "(case files_write ''w'' ''a/b.txt'' (Some [0xD800]) initial of
      (r1, st1) \<Rightarrow>
        r1 = Json [(''success'', JBool True)] \<and>
        fst (files_read ''w'' ''a/b.txt'' st1) = Content [0xD800] \<and>
        (case connection 1 (Some ''w'') 0 (cleanup ''w'' st1) of
           Inl e \<Rightarrow> False
         | Inr st2 \<Rightarrow>
             fst (files_read ''w'' ''a/b.txt'' st2) = Content [0xFFFD] \<and>
             Content [0xFFFD] \<noteq> Content [0xD800]))"
proof -
  obtain r1 st1 where w: "files_write ''w'' ''a/b.txt'' (Some [0xD800]) initial = (r1, st1)"
    by (cases "files_write ''w'' ''a/b.txt'' (Some [0xD800]) initial")
  have r1: "r1 = Json [(''success'', JBool True)]"
    and hit: "fst (files_read ''w'' ''a/b.txt'' st1) = Content [0xD800]"
    using w unfolding files_write_ab_initial by (auto simp: files_read_def)
  obtain st2 where s2: "connection 1 (Some ''w'') 0 (cleanup ''w'' st1) = Inr st2"
    using reattach_after_cleanup_ok[OF w] by blast
  have "fst (files_read ''w'' ''a/b.txt'' st2) = Content (utf8_decode (utf8_encode [0xD800]))"
    by (rule reread_after_reattach[OF w s2])
  then have "fst (files_read ''w'' ''a/b.txt'' st2) = Content [0xFFFD]"
    by (simp only: utf8_lone_surrogate)
  then show ?thesis using w r1 hit s2 by simp
qed

text \<open>
  Claim C10. When a path has an entry in the file cache of a session and nothing exists
  at it on storage, removing the path answers 404 before the cache is touched and changes
  nothing, and a read of the path then answers with the cached content.
\<close>

theorem rm_missing_keeps_cache:
  assumes "containers st previewId = Some c"
    and "files c filePath = Some x"
    and "filePath \<noteq> []"
    and "\<not> existsSync (storage st) (path_join (c_dir c) filePath)"
  shows "files_rm previewId filePath recursive st
           = (Status 404 [(''error'', JStr ''File or directory not found'')], st) \<and>
         files_read previewId filePath st = (Content x, st)"
  using assms by (simp add: files_rm_def files_read_def Let_def)

text \<open>
  Claim C10, witness: \<^verbatim>\<open>a/b.txt\<close> is written in workspace w, then the directory \<^verbatim>\<open>a\<close> is
  removed recursively, which evicts only the key \<^verbatim>\<open>a\<close>. Removing \<^verbatim>\<open>a/b.txt\<close> is then
  answered with 404 and reading it returns the stale content.
\<close>

theorem rm_missing_keeps_cache_witness:
  "(case files_write ''w'' ''a/b.txt'' (Some [0x78]) initial of
      (r1, st1) \<Rightarrow>
        (case files_rm ''w'' ''a'' True st1 of
           (r2, st2) \<Rightarrow>
             r2 = Json [(''success'', JBool True)] \<and>
             (case containers st2 ''w'' of
                None \<Rightarrow> False
              | Some c \<Rightarrow>
                  files c ''a/b.txt'' = Some [0x78] \<and>
                  \<not> existsSync (storage st2) (path_join (c_dir c) ''a/b.txt'')) \<and>
             files_rm ''w'' ''a/b.txt'' False st2
               = (Status 404 [(''error'', JStr ''File or directory not found'')], st2) \<and>
             files_read ''w'' ''a/b.txt'' st2 = (Content [0x78], st2)))"
proof -
  obtain r1 st1 where w: "files_write ''w'' ''a/b.txt'' (Some [0x78]) initial = (r1, st1)"
    by (cases "files_write ''w'' ''a/b.txt'' (Some [0x78]) initial")
  obtain r2 st2 where d: "files_rm ''w'' ''a'' True st1 = (r2, st2)"
    by (cases "files_rm ''w'' ''a'' True st1")
  from rm_dir_after_write[OF w d] obtain c where
    r2: "r2 = Json [(''success'', JBool True)]"
    and fs: "storage st2 = [([''data''], Dir), ([''data'', ''w''], Dir)]"
    and c: "containers st2 ''w'' = Some c" and dir: "c_dir c = ''/data/w''"
    and hit: "files c ''a/b.txt'' = Some [0x78]"
    by blast
  have ne: "''a/b.txt'' \<noteq> []" by simp
  have miss: "\<not> existsSync (storage st2) (path_join (c_dir c) ''a/b.txt'')"
    unfolding fs dir by (rule ab_missing)
  from rm_missing_keeps_cache[OF c hit ne miss, of False]
  show ?thesis using w d r2 c hit miss by simp
qed

end
